theory Spec2Isabelle
  imports Main "HOL-Library.Sublist"
begin

section \<open>The sync controller (pkg/controller/controller.go)\<close>

subsection \<open>Data\<close>

text \<open>
  A Go \<open>error\<close> is used by the controller only through its text (\<open>%v\<close>, \<open>err.Error()\<close>), so
  an error value is its text and the \<open>nil\<close> error is \<open>None\<close>. A \<open>map[string]string\<close> is an
  association list looked up with \<open>map_of\<close>; the \<open>nil\<close> map is \<open>None\<close>, so that \<open>backend == nil\<close>
  and \<open>len(backend) == 0\<close> stay two tests.
\<close>

type_synonym error = string

type_synonym strmap = "(string \<times> string) list option"

record Scripts =
  Deploy :: string
  Destroy :: string

record GitRepo =
  URL :: string
  Branch :: string

record ContainerRegistry =
  ImageName :: string

record TerraformConfigSpec =
  Variables :: strmap
  Backend :: strmap
  Scripts :: Scripts
  GitRepo :: GitRepo
  ContainerRegistry :: ContainerRegistry

text \<open>
  Of \<open>metav1.ObjectMeta\<close> the code reads or writes the name, the namespace and the
  finalizers; \<open>DeletionTimestamp\<close> says whether the field is set, which the cluster does
  when it has accepted a deletion that finalizers hold back.
\<close>

record ObjectMeta =
  Name :: string
  Namespace :: string
  Finalizers :: "string list"
  DeletionTimestamp :: bool

record ParentResource =
  ApiVersion :: string
  Kind :: string
  Metadata :: ObjectMeta
  Spec :: TerraformConfigSpec
  Status :: strmap

record SyncRequest =
  Parent :: ParentResource
  Finalizing :: bool

text \<open>
  The status is the Go map literal with exactly the two keys \<open>"state"\<close> and \<open>"message"\<close>,
  both holding strings.
\<close>

record status =
  state :: string
  message :: string

definition maxRetries :: nat where
  "maxRetries = 10"

text \<open>\<open>time.Minute\<close>, a \<open>time.Duration\<close> in nanoseconds.\<close>

definition Minute :: int where
  "Minute = 60 * 1000000000"

subsection \<open>The world outside the controller\<close>

text \<open>
  Every call that leaves the controller is recorded as an event, in program order. The
  event of a run-pod attempt also holds the error the attempt returned, since the retry
  loop reports the last one. Log output is not modelled.
\<close>

datatype event =
    EvGetProvider string
  | EvSetupBackend string strmap
  | EvGetDockerfileAdditions string
  | EvCreateDockerfileConfigMap string string string bool
  | EvCreateDockerConfigSecret string string string
  | EvCreateBuildPod string string string string string string string string string
  | EvCreateRunPod string string strmap string string string "error option"
  | EvSleep int
  | EvUpdateStatus string string status

fun is_backend_event :: "event \<Rightarrow> bool" where
  "is_backend_event (EvGetProvider _) = True"
| "is_backend_event (EvSetupBackend _ _) = True"
| "is_backend_event (EvGetDockerfileAdditions _) = True"
| "is_backend_event _ = False"

fun is_build_event :: "event \<Rightarrow> bool" where
  "is_build_event (EvCreateDockerfileConfigMap _ _ _ _) = True"
| "is_build_event (EvCreateDockerConfigSecret _ _ _) = True"
| "is_build_event (EvCreateBuildPod _ _ _ _ _ _ _ _ _) = True"
| "is_build_event _ = False"

fun is_run_event :: "event \<Rightarrow> bool" where
  "is_run_event (EvCreateRunPod _ _ _ _ _ _ _) = True"
| "is_run_event (EvSleep _) = True"
| "is_run_event _ = False"


text \<open>
  The system state: the outside world, of a type \<open>'w\<close> the controller knows nothing
  about, and the events so far.
\<close>

record 'w sys =
  world :: 'w
  trace :: "event list"

text \<open>
  A backend provider (the interface of package \<open>plugin\<close>): its two methods.
\<close>

record 'w Provider =
  SetupBackend :: "strmap \<Rightarrow> 'w \<Rightarrow> error option \<times> 'w"
  GetDockerfileAdditions :: "'w \<Rightarrow> string \<times> 'w"

text \<open>
  The functions the controller calls and whose code is in other packages or libraries.
  Each may read and change the world and may fail; a Go result \<open>(T, error)\<close> is the sum
  \<open>error + T\<close>. \<open>container_CreateBuildPod\<close> is the build call as the controller makes it
  (nine string arguments, two strings and an error returned).
\<close>

record 'w externals =
  ExtractEnvVars :: "(string \<times> string) list \<Rightarrow> strmap"
  Getenv :: "string \<Rightarrow> string"
  Join :: "string \<Rightarrow> string \<Rightarrow> string"
  GetProvider :: "string \<Rightarrow> error + 'w Provider"
  CreateDockerfileConfigMap :: "string \<Rightarrow> string \<Rightarrow> string \<Rightarrow> bool \<Rightarrow> 'w \<Rightarrow> (error + string) \<times> 'w"
  CreateDockerConfigSecret :: "string \<Rightarrow> string \<Rightarrow> string \<Rightarrow> 'w \<Rightarrow> error option \<times> 'w"
  container_CreateBuildPod :: "string \<Rightarrow> string \<Rightarrow> string \<Rightarrow> string \<Rightarrow> string \<Rightarrow> string \<Rightarrow> string
      \<Rightarrow> string \<Rightarrow> string \<Rightarrow> 'w \<Rightarrow> (error + string \<times> string) \<times> 'w"
  CreateRunPod :: "string \<Rightarrow> string \<Rightarrow> strmap \<Rightarrow> string \<Rightarrow> string \<Rightarrow> string \<Rightarrow> 'w \<Rightarrow> error option \<times> 'w"
  Sleep :: "int \<Rightarrow> 'w \<Rightarrow> 'w"
  UpdateStatus :: "string \<Rightarrow> string \<Rightarrow> status \<Rightarrow> 'w \<Rightarrow> error option \<times> 'w"

text \<open>One call to the outside: run it on the world and record the event of its result.\<close>

definition call :: "('a \<Rightarrow> event) \<Rightarrow> ('w \<Rightarrow> 'a \<times> 'w) \<Rightarrow> 'w sys \<Rightarrow> 'a \<times> 'w sys" where
  "call ev f s =
     (case f (world s) of (r, w') \<Rightarrow> (r, \<lparr>world = w', trace = trace s @ [ev r]\<rparr>))"

subsection \<open>The controller's functions\<close>

definition errorResponse :: "string \<Rightarrow> error \<Rightarrow> status" where
  "errorResponse action err =
     \<lparr>state = ''error'', message = ''Error '' @ action @ '': '' @ err\<rparr>"

text \<open>\<open>updateStatus\<close> logs a failed write and returns nothing.\<close>

definition updateStatus :: "'w externals \<Rightarrow> SyncRequest \<Rightarrow> status \<Rightarrow> 'w sys \<Rightarrow> 'w sys" where
  "updateStatus X observed st s =
     snd (call (\<lambda>_. EvUpdateStatus (Namespace (Metadata (Parent observed)))
                      (Name (Metadata (Parent observed))) st)
            (UpdateStatus X (Namespace (Metadata (Parent observed)))
                      (Name (Metadata (Parent observed))) st) s)"

definition extractEnvVars :: "'w externals \<Rightarrow> strmap \<Rightarrow> strmap" where
  "extractEnvVars X variables =
     (case variables of None \<Rightarrow> None | Some vs \<Rightarrow> ExtractEnvVars X vs)"

definition setupBackend :: "'w externals \<Rightarrow> strmap \<Rightarrow> 'w sys \<Rightarrow> (string \<times> bool \<times> error option) \<times> 'w sys" where
  "setupBackend X backend s =
     (case backend of
        None \<Rightarrow> (([], False, None), s)
      | Some b \<Rightarrow>
          if length b = 0 then (([], False, None), s)
          else
            (case map_of b ''provider'' of
               None \<Rightarrow> (([], False, None), s)
             | Some providerType \<Rightarrow>
                 if providerType = [] then (([], False, None), s)
                 else
                   (case call (\<lambda>_. EvGetProvider providerType)
                           (\<lambda>w. (GetProvider X providerType, w)) s of
                      (Inl err, s1) \<Rightarrow> (([], False, Some (''error getting provider: '' @ err)), s1)
                    | (Inr provider, s1) \<Rightarrow>
                        (case call (\<lambda>_. EvSetupBackend providerType backend)
                                (SetupBackend provider backend) s1 of
                           (Some err, s2) \<Rightarrow>
                             (([], False,
                               Some (''error setting up '' @ providerType @ '' backend: '' @ err)), s2)
                         | (None, s2) \<Rightarrow>
                             (case call (\<lambda>_. EvGetDockerfileAdditions providerType)
                                     (GetDockerfileAdditions provider) s2 of
                                (additions, s3) \<Rightarrow> ((additions, True, None), s3))))))"

definition buildAndTagImage ::
  "'w externals \<Rightarrow> SyncRequest \<Rightarrow> string \<Rightarrow> string \<Rightarrow> string \<Rightarrow> string \<Rightarrow> 'w sys
     \<Rightarrow> (error + string \<times> string) \<times> 'w sys" where
  "buildAndTagImage X observed configMapName repoDir sshKey secretName s =
     (let imageName = ImageName (ContainerRegistry (Spec (Parent observed)));
          name = Name (Metadata (Parent observed));
          ns = Namespace (Metadata (Parent observed));
          url = URL (GitRepo (Spec (Parent observed)));
          branch = Branch (GitRepo (Spec (Parent observed)))
      in call (\<lambda>_. EvCreateBuildPod name ns configMapName imageName secretName repoDir url branch sshKey)
           (container_CreateBuildPod X name ns configMapName imageName secretName repoDir url branch sshKey)
           s)"

text \<open>
  The retry loop of \<open>runTerraform\<close>: \<open>for i := 0; i < maxRetries; i++\<close>, with the loop
  variable \<open>terraformErr\<close>. It returns the value of \<open>terraformErr\<close> after the loop.
\<close>

function runTerraform_loop ::
  "'w externals \<Rightarrow> SyncRequest \<Rightarrow> string \<Rightarrow> string \<Rightarrow> string \<Rightarrow> strmap \<Rightarrow> nat \<Rightarrow> error option
     \<Rightarrow> 'w sys \<Rightarrow> error option \<times> 'w sys" where
  "runTerraform_loop X observed scriptContent taggedImageName secretName envVars i terraformErr s =
     (if i < maxRetries then
        (case call (EvCreateRunPod (Name (Metadata (Parent observed)))
                      (Namespace (Metadata (Parent observed)))
                      envVars scriptContent taggedImageName secretName)
                (CreateRunPod X (Name (Metadata (Parent observed)))
                      (Namespace (Metadata (Parent observed)))
                      envVars scriptContent taggedImageName secretName) s of
           (None, s1) \<Rightarrow> (None, s1)
         | (Some err, s1) \<Rightarrow>
             runTerraform_loop X observed scriptContent taggedImageName secretName envVars (i + 1)
               (Some err)
               (snd (call (\<lambda>_. EvSleep (1 * Minute)) (\<lambda>w. ((), Sleep X (1 * Minute) w)) s1)))
      else (terraformErr, s))"
  by pat_completeness auto
termination
  by (relation "measure (\<lambda>(X, observed, scriptContent, taggedImageName, secretName, envVars, i, terraformErr, s).
        maxRetries - i)") auto

declare runTerraform_loop.simps [simp del]

definition runTerraform ::
  "'w externals \<Rightarrow> SyncRequest \<Rightarrow> string \<Rightarrow> string \<Rightarrow> string \<Rightarrow> strmap \<Rightarrow> 'w sys \<Rightarrow> status \<times> 'w sys" where
  "runTerraform X observed scriptContent taggedImageName secretName envVars s =
     (case runTerraform_loop X observed scriptContent taggedImageName secretName envVars 0 None s of
        (terraformErr, s') \<Rightarrow>
          (let st = \<lparr>state = ''Success'', message = ''Terraform applied successfully''\<rparr>
           in (case terraformErr of
                 Some err \<Rightarrow> (st\<lparr>state := ''Failed'', message := err\<rparr>, s')
               | None \<Rightarrow> (st, s'))))"

text \<open>
  The local variables of \<open>handleSyncRequest\<close> that the source assigns to: its parameter
  \<open>observed\<close> (a copy of the caller's request, Go passing the struct by value) and
  \<open>scriptContent\<close>. The function returns the status; the model returns with it the
  locals as they are at the \<open>return\<close>, and the system state.
\<close>

record locals =
  observed :: SyncRequest
  scriptContent :: string

text \<open>
  Lines 141 to 178 of the function, the stages after the script has been chosen; they are
  reached from the two places where the script checks pass.
\<close>

definition handleSyncRequest_stages ::
  "'w externals \<Rightarrow> strmap \<Rightarrow> locals \<Rightarrow> 'w sys \<Rightarrow> status \<times> locals \<times> 'w sys" where
  "handleSyncRequest_stages X envVars l s =
     (let repoDir = Join X ''/tmp'' (Name (Metadata (Parent (observed l))));
          sshKey = Getenv X ''GIT_SSH_SECRET''
      in
      (case setupBackend X (Backend (Spec (Parent (observed l)))) s of
         ((dockerfileAdditions, providerExists, Some err), s1) \<Rightarrow>
           (let st = errorResponse ''setting up backend'' err
            in (st, l, updateStatus X (observed l) st s1))
       | ((dockerfileAdditions, providerExists, None), s1) \<Rightarrow>
           (case call (\<lambda>_. EvCreateDockerfileConfigMap (Name (Metadata (Parent (observed l))))
                         (Namespace (Metadata (Parent (observed l)))) dockerfileAdditions providerExists)
                   (CreateDockerfileConfigMap X (Name (Metadata (Parent (observed l))))
                         (Namespace (Metadata (Parent (observed l)))) dockerfileAdditions providerExists)
                   s1 of
              (Inl err, s2) \<Rightarrow>
                (let st = errorResponse ''creating Dockerfile ConfigMap'' err
                 in (st, l, updateStatus X (observed l) st s2))
            | (Inr configMapName, s2) \<Rightarrow>
                (let encodedDockerConfigJSON = Getenv X ''CONTAINER_REGISTRY_SECRET'';
                     secretName = Name (Metadata (Parent (observed l))) @ ''-container-secret''
                 in
                 (case call (\<lambda>_. EvCreateDockerConfigSecret secretName
                               (Namespace (Metadata (Parent (observed l)))) encodedDockerConfigJSON)
                         (CreateDockerConfigSecret X secretName
                               (Namespace (Metadata (Parent (observed l)))) encodedDockerConfigJSON)
                         s2 of
                    (Some err, s3) \<Rightarrow>
                      (let st = errorResponse ''creating Docker config secret'' err
                       in (st, l, updateStatus X (observed l) st s3))
                  | (None, s3) \<Rightarrow>
                      (case buildAndTagImage X (observed l) configMapName repoDir sshKey secretName s3 of
                         (Inl err, s4) \<Rightarrow>
                           (let st = errorResponse ''creating build job'' err
                            in (st, l, updateStatus X (observed l) st s4))
                       | (Inr (taggedImageName, _), s4) \<Rightarrow>
                           (case runTerraform X (observed l) (scriptContent l) taggedImageName
                                   secretName envVars s4 of
                              (st, s5) \<Rightarrow> (st, l, updateStatus X (observed l) st s5))))))))"

definition handleSyncRequest :: "'w externals \<Rightarrow> SyncRequest \<Rightarrow> 'w sys \<Rightarrow> status \<times> locals \<times> 'w sys" where
  "handleSyncRequest X request s =
     (let envVars = extractEnvVars X (Variables (Spec (Parent request)));
          l = \<lparr>observed = request, scriptContent = Deploy (Scripts (Spec (Parent request)))\<rparr>
      in
      if scriptContent l = [] then
        (let st = errorResponse ''executing deploy script'' ''deploy script is missing''
         in (st, l, updateStatus X (observed l) st s))
      else if Finalizing (observed l) then
        (let l1 = l\<lparr>scriptContent := Destroy (Scripts (Spec (Parent (observed l))))\<rparr>
         in
         if scriptContent l1 = [] then
           (let st = errorResponse ''executing destroy script'' ''destroy script is missing''
            in (st, l1, updateStatus X (observed l1) st s))
         else handleSyncRequest_stages X envVars l1 s)
      else handleSyncRequest_stages X envVars l s)"

section \<open>The build pod (pkg/container/kaniko.go)\<close>

subsection \<open>Pods\<close>

record KeyToPath =
  Key :: string
  Path :: string

text \<open>
  A \<open>corev1.VolumeMount\<close>; the source sets \<open>Name\<close> and \<open>MountPath\<close> and leaves
  \<open>ReadOnly\<close> at Go's zero value.
\<close>

record VolumeMount =
  MountName :: string
  ReadOnly :: bool
  MountPath :: string

text \<open>
  A \<open>corev1.VolumeSource\<close> has one pointer field per kind of source, of which a volume
  sets one: the four kinds the source uses, with the fields it sets.
\<close>

datatype VolumeSource =
    ConfigMapVolumeSource string "KeyToPath list"
  | HostPathVolumeSource string
  | SecretVolumeSource string "KeyToPath list"
  | PersistentVolumeClaimVolumeSource string

record Volume =
  VolumeName :: string
  VolumeSource :: VolumeSource

record EnvVar =
  EnvName :: string
  EnvValue :: string

record Container =
  ContainerName :: string
  Image :: string
  Args :: "string list"
  Env :: "EnvVar list"
  VolumeMounts :: "VolumeMount list"

datatype RestartPolicy = RestartPolicyAlways | RestartPolicyOnFailure | RestartPolicyNever

record PodSpec =
  Containers :: "Container list"
  RestartPolicy :: RestartPolicy
  Volumes :: "Volume list"

record Pod =
  PodMeta :: ObjectMeta
  PodSpec :: PodSpec

subsection \<open>The cluster behind the clientset\<close>

text \<open>
  The errors of the API machinery, of which the source asks only \<open>apierrors.IsNotFound\<close>.
\<close>

datatype api_error = ErrNotFound string | ErrAlreadyExists string | ErrOther string

fun IsNotFound :: "api_error \<Rightarrow> bool" where
  "IsNotFound (ErrNotFound _) = True"
| "IsNotFound _ = False"

datatype request =
    ReqEnsurePVC string string
  | ReqGet string string
  | ReqPatchFinalizers string string
  | ReqDelete string string
  | ReqCreate string Pod

datatype reply = Failed api_error | Found Pod | Done

text \<open>
  The cluster as the clientset shows it: the pods and the persistent volume claims it
  stores, a script of faults, and the log of the calls made on the clientset, each with
  what it returned. Each request that is sent takes the next entry of the script:
  \<open>Some e\<close> makes the request fail with \<open>e\<close> and change nothing (a network error, a
  refusal, a create that meets an object whose deletion is still in flight); \<open>None\<close>, or
  an exhausted script, lets the store answer. The store keeps at most what the Kubernetes
  API promises of it: a pod is found by namespace and name, a create of a name that is
  present fails with AlreadyExists, a delete removes a pod at once unless finalizers hold
  it, in which case the pod stays with its deletion timestamp set, and clearing the
  finalizers of such a pod removes it.

  The client library sends no lookup and no delete of a named object, and no create, in
  the empty namespace: it returns an error of its own, which is not NotFound, and the
  cluster is not asked.
\<close>

record cluster =
  Pods :: "Pod list"
  PVCs :: "(string \<times> string) list"
  faults :: "api_error option list"
  log :: "(request \<times> reply) list"

definition empty_namespace_named :: api_error where
  "empty_namespace_named =
     ErrOther ''an empty namespace may not be set when a resource name is provided''"

definition empty_namespace_creation :: api_error where
  "empty_namespace_creation = ErrOther ''an empty namespace may not be set during creation''"

definition next_fault :: "cluster \<Rightarrow> api_error option \<times> cluster" where
  "next_fault c =
     (case faults c of [] \<Rightarrow> (None, c) | f # fs \<Rightarrow> (f, c\<lparr>faults := fs\<rparr>))"

definition logged :: "request \<Rightarrow> reply \<Rightarrow> cluster \<Rightarrow> cluster" where
  "logged rq rp c = c\<lparr>log := log c @ [(rq, rp)]\<rparr>"

definition is_pod :: "string \<Rightarrow> string \<Rightarrow> Pod \<Rightarrow> bool" where
  "is_pod ns name p = (Namespace (PodMeta p) = ns \<and> Name (PodMeta p) = name)"

definition live_pods :: "string \<Rightarrow> string \<Rightarrow> cluster \<Rightarrow> Pod list" where
  "live_pods ns name c =
     filter (\<lambda>p. is_pod ns name p \<and> \<not> DeletionTimestamp (PodMeta p)) (Pods c)"

text \<open>\<open>Pods(namespace).Get(ctx, name, GetOptions{})\<close>\<close>

definition GetPod :: "string \<Rightarrow> string \<Rightarrow> cluster \<Rightarrow> (api_error + Pod) \<times> cluster" where
  "GetPod ns name c =
     (if ns = [] then
        (Inl empty_namespace_named, logged (ReqGet ns name) (Failed empty_namespace_named) c)
      else
        (case next_fault c of
           (Some e, c1) \<Rightarrow> (Inl e, logged (ReqGet ns name) (Failed e) c1)
         | (None, c1) \<Rightarrow>
             (case find (is_pod ns name) (Pods c1) of
                None \<Rightarrow> (Inl (ErrNotFound name), logged (ReqGet ns name) (Failed (ErrNotFound name)) c1)
              | Some p \<Rightarrow> (Inr p, logged (ReqGet ns name) (Found p) c1))))"

text \<open>
  \<open>Pods(namespace).Patch\<close> with the merge patch \<open>{"metadata":{"finalizers":[]}}\<close>, the
  only patch the source sends.
\<close>

definition PatchPodFinalizers :: "string \<Rightarrow> string \<Rightarrow> cluster \<Rightarrow> api_error option \<times> cluster" where
  "PatchPodFinalizers ns name c =
     (case next_fault c of
        (Some e, c1) \<Rightarrow> (Some e, logged (ReqPatchFinalizers ns name) (Failed e) c1)
      | (None, c1) \<Rightarrow>
          (case find (is_pod ns name) (Pods c1) of
             None \<Rightarrow> (Some (ErrNotFound name),
                        logged (ReqPatchFinalizers ns name) (Failed (ErrNotFound name)) c1)
           | Some p \<Rightarrow>
               (None, logged (ReqPatchFinalizers ns name) Done
                  (c1\<lparr>Pods :=
                     concat (map (\<lambda>q. if is_pod ns name q
                                       then (if DeletionTimestamp (PodMeta q) then []
                                             else [q\<lparr>PodMeta := (PodMeta q)\<lparr>Finalizers := []\<rparr>\<rparr>])
                                       else [q]) (Pods c1))\<rparr>))))"

text \<open>\<open>Pods(namespace).Delete(ctx, name, DeleteOptions{})\<close>\<close>

definition DeletePod :: "string \<Rightarrow> string \<Rightarrow> cluster \<Rightarrow> api_error option \<times> cluster" where
  "DeletePod ns name c =
     (if ns = [] then
        (Some empty_namespace_named, logged (ReqDelete ns name) (Failed empty_namespace_named) c)
      else
      (case next_fault c of
        (Some e, c1) \<Rightarrow> (Some e, logged (ReqDelete ns name) (Failed e) c1)
      | (None, c1) \<Rightarrow>
          (case find (is_pod ns name) (Pods c1) of
             None \<Rightarrow> (Some (ErrNotFound name), logged (ReqDelete ns name) (Failed (ErrNotFound name)) c1)
           | Some p \<Rightarrow>
               (None, logged (ReqDelete ns name) Done
                  (c1\<lparr>Pods :=
                     concat (map (\<lambda>q. if is_pod ns name q
                                       then (if Finalizers (PodMeta q) = [] then []
                                             else [q\<lparr>PodMeta := (PodMeta q)\<lparr>DeletionTimestamp := True\<rparr>\<rparr>])
                                       else [q]) (Pods c1))\<rparr>)))))"

text \<open>
  \<open>Pods(namespace).Create(ctx, pod, CreateOptions{})\<close>: the stored pod is in the
  namespace of the request.
\<close>

definition in_namespace :: "string \<Rightarrow> Pod \<Rightarrow> Pod" where
  "in_namespace ns pod = pod\<lparr>PodMeta := (PodMeta pod)\<lparr>Namespace := ns\<rparr>\<rparr>"

definition CreatePod :: "string \<Rightarrow> Pod \<Rightarrow> cluster \<Rightarrow> api_error option \<times> cluster" where
  "CreatePod ns pod c =
     (if ns = [] then
        (Some empty_namespace_creation, logged (ReqCreate ns pod) (Failed empty_namespace_creation) c)
      else
      (case next_fault c of
        (Some e, c1) \<Rightarrow> (Some e, logged (ReqCreate ns pod) (Failed e) c1)
      | (None, c1) \<Rightarrow>
          (case find (is_pod ns (Name (PodMeta pod))) (Pods c1) of
             Some p \<Rightarrow> (Some (ErrAlreadyExists (Name (PodMeta pod))),
                         logged (ReqCreate ns pod) (Failed (ErrAlreadyExists (Name (PodMeta pod)))) c1)
           | None \<Rightarrow>
               (None, logged (ReqCreate ns pod) Done
                  (c1\<lparr>Pods := Pods c1 @ [in_namespace ns pod]\<rparr>)))))"

text \<open>
  Modelled from the spec: \<open>EnsurePVC\<close>, which \<open>CreateBuildPod\<close> calls and whose source
  file is missing. The spec says of the persistent claim that it "is provisioned on
  demand and is itself idempotent (create-if-absent, never re-created if present)". It is
  one request here, which can fail.
\<close>

definition EnsurePVC :: "string \<Rightarrow> string \<Rightarrow> cluster \<Rightarrow> api_error option \<times> cluster" where
  "EnsurePVC ns pvcName c =
     (case next_fault c of
        (Some e, c1) \<Rightarrow> (Some e, logged (ReqEnsurePVC ns pvcName) (Failed e) c1)
      | (None, c1) \<Rightarrow>
          (None, logged (ReqEnsurePVC ns pvcName) Done
             (if (ns, pvcName) \<in> set (PVCs c1) then c1
              else c1\<lparr>PVCs := PVCs c1 @ [(ns, pvcName)]\<rparr>)))"

subsection \<open>The functions of kaniko.go\<close>

text \<open>
  \<open>CreateBuildPod\<close> as this file declares it: seven strings after the clientset, and an
  error returned. (The call in controller.go passes nine strings and takes three results;
  there it is the parameter \<open>container_CreateBuildPod\<close>.)
\<close>

definition removeFinalizers :: "string \<Rightarrow> string \<Rightarrow> cluster \<Rightarrow> api_error option \<times> cluster" where
  "removeFinalizers ns podName c = PatchPodFinalizers ns podName c"

text \<open>The pod literal of \<open>CreateBuildPod\<close> (lines 62 to 152).\<close>

definition buildPodObject :: "string \<Rightarrow> string \<Rightarrow> string \<Rightarrow> string \<Rightarrow> string \<Rightarrow> string \<Rightarrow> string \<Rightarrow> Pod" where
  "buildPodObject podName name configMapName imageName pvcName dockerSecretName repoDir =
     \<lparr>PodMeta = \<lparr>Name = podName, Namespace = [], Finalizers = [], DeletionTimestamp = False\<rparr>,
      PodSpec =
        \<lparr>Containers =
           [\<lparr>ContainerName = ''kaniko'',
             Image = ''gcr.io/kaniko-project/executor:v1.23.1-debug'',
             Args = [''--dockerfile=/config/Dockerfile'',
                     ''--destination='' @ imageName,
                     ''--context=/tmp/'' @ name],
             Env = [\<lparr>EnvName = ''DOCKER_CONFIG'', EnvValue = ''/root/.docker''\<rparr>],
             VolumeMounts =
               [\<lparr>MountName = ''dockerfile-config'', ReadOnly = False, MountPath = ''/config''\<rparr>,
                \<lparr>MountName = ''workspace'', ReadOnly = False, MountPath = ''/workspace''\<rparr>,
                \<lparr>MountName = ''docker-credentials'', ReadOnly = False, MountPath = ''/root/.docker''\<rparr>,
                \<lparr>MountName = ''kaniko-logs'', ReadOnly = False, MountPath = ''/logs''\<rparr>]\<rparr>],
         RestartPolicy = RestartPolicyNever,
         Volumes =
           [\<lparr>VolumeName = ''dockerfile-config'',
             VolumeSource = ConfigMapVolumeSource configMapName
                              [\<lparr>Key = ''Dockerfile'', Path = ''Dockerfile''\<rparr>]\<rparr>,
            \<lparr>VolumeName = ''workspace'', VolumeSource = HostPathVolumeSource repoDir\<rparr>,
            \<lparr>VolumeName = ''docker-credentials'',
             VolumeSource = SecretVolumeSource dockerSecretName
                              [\<lparr>Key = ''.dockerconfigjson'', Path = ''config.json''\<rparr>]\<rparr>,
            \<lparr>VolumeName = ''kaniko-logs'',
             VolumeSource = PersistentVolumeClaimVolumeSource pvcName\<rparr>]\<rparr>\<rparr>"

definition CreateBuildPod ::
  "string \<Rightarrow> string \<Rightarrow> string \<Rightarrow> string \<Rightarrow> string \<Rightarrow> string \<Rightarrow> string \<Rightarrow> cluster
     \<Rightarrow> api_error option \<times> cluster" where
  "CreateBuildPod name namespace configMapName imageName pvcName dockerSecretName repoDir c =
     (case EnsurePVC namespace pvcName c of
        (Some err, c1) \<Rightarrow> (Some err, c1)
      | (None, c1) \<Rightarrow>
          (let podName = name @ ''-docker-build-pod'';
               pod = buildPodObject podName name configMapName imageName pvcName dockerSecretName repoDir
           in
           (case GetPod namespace podName c1 of
              (Inr existing, c2) \<Rightarrow>
                (case (if length (Finalizers (PodMeta existing)) > 0
                       then removeFinalizers namespace podName c2 else (None, c2)) of
                   (Some err, c3) \<Rightarrow> (Some err, c3)
                 | (None, c3) \<Rightarrow>
                     (case DeletePod namespace podName c3 of
                        (Some err, c4) \<Rightarrow> (Some err, c4)
                      | (None, c4) \<Rightarrow> CreatePod namespace pod c4))
            | (Inl err, c2) \<Rightarrow>
                if \<not> IsNotFound err then (Some err, c2)
                else CreatePod namespace pod c2)))"

section \<open>Notions the properties are stated with\<close>

text \<open>
  A backend map that is nil, empty, or has no non-empty \<open>provider\<close> entry.
\<close>

definition no_provider :: "strmap \<Rightarrow> bool" where
  "no_provider backend =
     (case backend of
        None \<Rightarrow> True
      | Some b \<Rightarrow> b = [] \<or> map_of b ''provider'' = None \<or> map_of b ''provider'' = Some [])"

text \<open>An event of the run stage that runs the script \<open>sc\<close> (a sleep runs none).\<close>

fun runs_script :: "string \<Rightarrow> event \<Rightarrow> bool" where
  "runs_script sc (EvCreateRunPod _ _ _ sc' _ _ _) = (sc' = sc)"
| "runs_script sc (EvSleep _) = True"
| "runs_script sc _ = False"

text \<open>The reply logged for a request that returns only an error.\<close>

definition reply_of :: "api_error option \<Rightarrow> reply" where
  "reply_of r = (case r of None \<Rightarrow> Done | Some e \<Rightarrow> Failed e)"

text \<open>The namespace and name of the pod a request is about; a claim request is about none.\<close>

fun request_pod :: "request \<Rightarrow> (string \<times> string) option" where
  "request_pod (ReqEnsurePVC ns pvcName) = None"
| "request_pod (ReqGet ns name) = Some (ns, name)"
| "request_pod (ReqPatchFinalizers ns name) = Some (ns, name)"
| "request_pod (ReqDelete ns name) = Some (ns, name)"
| "request_pod (ReqCreate ns pod) = Some (ns, Name (PodMeta pod))"

fun is_patch :: "request \<Rightarrow> bool" where
  "is_patch (ReqPatchFinalizers _ _) = True"
| "is_patch _ = False"

fun is_delete :: "request \<Rightarrow> bool" where
  "is_delete (ReqDelete _ _) = True"
| "is_delete _ = False"

fun is_create :: "request \<Rightarrow> bool" where
  "is_create (ReqCreate _ _) = True"
| "is_create _ = False"

text \<open>
  The requests of "ensure a fresh unit" in the words of the specification: look the unit
  up by its name; if one is found and it carries finalizers, strip them with a patch;
  then delete it; create the new unit right after.
\<close>

definition ensure_fresh_requests :: "string \<Rightarrow> string \<Rightarrow> Pod option \<Rightarrow> Pod \<Rightarrow> request list" where
  "ensure_fresh_requests ns podName existing pod =
     ReqGet ns podName
     # (case existing of
          None \<Rightarrow> []
        | Some p \<Rightarrow>
            (if Finalizers (PodMeta p) \<noteq> [] then [ReqPatchFinalizers ns podName] else [])
            @ [ReqDelete ns podName])
     @ [ReqCreate ns pod]"

text \<open>The pod of the first lookup in a log that found one.\<close>

fun found_pod :: "(request \<times> reply) list \<Rightarrow> Pod option" where
  "found_pod [] = None"
| "found_pod ((rq, Found p) # es) = Some p"
| "found_pod (_ # es) = found_pod es"

text \<open>
  The logs one call of \<open>CreateBuildPod\<close> can add, with the error it returns: the call ends
  at the first failed request, except that a lookup answered NotFound goes on to the
  create.
\<close>

definition patch_entries :: "string \<Rightarrow> string \<Rightarrow> Pod \<Rightarrow> (request \<times> reply) list" where
  "patch_entries ns podName p =
     (if Finalizers (PodMeta p) \<noteq> [] then [(ReqPatchFinalizers ns podName, Done)] else [])"

definition build_protocol ::
  "string \<Rightarrow> string \<Rightarrow> string \<Rightarrow> Pod \<Rightarrow> api_error option \<Rightarrow> (request \<times> reply) list \<Rightarrow> bool" where
  "build_protocol ns pvcName podName pod err entries =
     ((\<exists>e. err = Some e \<and> entries = [(ReqEnsurePVC ns pvcName, Failed e)])
    \<or> (\<exists>e. err = Some e \<and> \<not> IsNotFound e
           \<and> entries = [(ReqEnsurePVC ns pvcName, Done), (ReqGet ns podName, Failed e)])
    \<or> (\<exists>e. IsNotFound e
           \<and> entries = [(ReqEnsurePVC ns pvcName, Done), (ReqGet ns podName, Failed e),
                        (ReqCreate ns pod, reply_of err)])
    \<or> (\<exists>p e. err = Some e \<and> Finalizers (PodMeta p) \<noteq> []
           \<and> entries = [(ReqEnsurePVC ns pvcName, Done), (ReqGet ns podName, Found p),
                        (ReqPatchFinalizers ns podName, Failed e)])
    \<or> (\<exists>p e. err = Some e
           \<and> entries = [(ReqEnsurePVC ns pvcName, Done), (ReqGet ns podName, Found p)]
                        @ patch_entries ns podName p @ [(ReqDelete ns podName, Failed e)])
    \<or> (\<exists>p. entries = [(ReqEnsurePVC ns pvcName, Done), (ReqGet ns podName, Found p)]
                        @ patch_entries ns podName p
                        @ [(ReqDelete ns podName, Done), (ReqCreate ns pod, reply_of err)]))"

text \<open>
  A cluster in which a call for the pod \<open>podName\<close> meets nothing out of the ordinary: the
  namespace has a name, no fault is scripted, at most one pod of the name is stored, and
  that pod is not already being deleted.
\<close>

definition settled :: "string \<Rightarrow> string \<Rightarrow> cluster \<Rightarrow> bool" where
  "settled ns podName c =
     (ns \<noteq> [] \<and> faults c = []
      \<and> length (filter (is_pod ns podName) (Pods c)) \<le> 1
      \<and> list_all (\<lambda>p. \<not> DeletionTimestamp (PodMeta p)) (filter (is_pod ns podName) (Pods c)))"

section \<open>Concrete instances\<close>

text \<open>
  A small outside world on which the functions can be run. The world counts the run-pod
  attempts made; the first \<open>k\<close> of them fail, each with an error text of its own. The
  registry knows the one provider \<open>aws\<close>.
\<close>

definition demo_provider :: "nat Provider" where
  "demo_provider =
     \<lparr>SetupBackend = (\<lambda>backend w. (None, w)),
      GetDockerfileAdditions = (\<lambda>w. (''RUN terraform init'', w))\<rparr>"

definition demo_externals :: "nat \<Rightarrow> nat externals" where
  "demo_externals k =
     \<lparr>ExtractEnvVars = Some,
      Getenv = (\<lambda>key. ''value-of-'' @ key),
      Join = (\<lambda>dir name. dir @ ''/'' @ name),
      GetProvider = (\<lambda>providerType.
         if providerType = ''aws'' then Inr demo_provider
         else Inl (''unknown provider: '' @ providerType)),
      CreateDockerfileConfigMap = (\<lambda>name ns additions providerExists w. (Inr (name @ ''-dockerfile''), w)),
      CreateDockerConfigSecret = (\<lambda>secretName ns encoded w. (None, w)),
      container_CreateBuildPod = (\<lambda>name ns configMapName imageName secretName repoDir url branch sshKey w.
         (Inr (imageName @ '':latest'', name @ ''-docker-build-pod''), w)),
      CreateRunPod = (\<lambda>name ns envVars script image secretName w.
         (if w < k then Some (''attempt '' @ replicate (Suc w) (CHR ''|'')) else None, Suc w)),
      Sleep = (\<lambda>d w. w),
      UpdateStatus = (\<lambda>ns name st w. (None, w))\<rparr>"

text \<open>The same world, but the creation of the Dockerfile ConfigMap is refused.\<close>

definition demo_failing_externals :: "nat externals" where
  "demo_failing_externals =
     (demo_externals 0)
       \<lparr>CreateDockerfileConfigMap :=
          (\<lambda>name ns additions providerExists w. (Inl ''configmaps is forbidden'', w))\<rparr>"

definition demo_request :: "bool \<Rightarrow> string \<Rightarrow> string \<Rightarrow> strmap \<Rightarrow> SyncRequest" where
  "demo_request finalizing deploy destroy backend =
     \<lparr>Parent =
        \<lparr>ApiVersion = ''alustan.io/v1alpha1'',
         Kind = ''Terraform'',
         Metadata = \<lparr>Name = ''tf'', Namespace = ''default'', Finalizers = [], DeletionTimestamp = False\<rparr>,
         Spec =
           \<lparr>Variables = None,
            Backend = backend,
            Scripts = \<lparr>Deploy = deploy, Destroy = destroy\<rparr>,
            GitRepo = \<lparr>URL = ''https://github.com/example/terraform-repo'', Branch = ''main''\<rparr>,
            ContainerRegistry = \<lparr>ImageName = ''docker.io/alustan/terraform-controller''\<rparr>\<rparr>,
         Status = None\<rparr>,
      Finalizing = finalizing\<rparr>"

definition demo_sys :: "nat sys" where
  "demo_sys = \<lparr>world = 0, trace = []\<rparr>"

text \<open>
  A cluster that holds a build pod of an earlier run, stuck on a finalizer, and whose
  requests meet no fault.
\<close>

definition demo_old_pod :: Pod where
  "demo_old_pod =
     \<lparr>PodMeta = \<lparr>Name = ''tf-docker-build-pod'', Namespace = ''default'',
                 Finalizers = [''example.com/hold''], DeletionTimestamp = False\<rparr>,
      PodSpec = \<lparr>Containers = [], RestartPolicy = RestartPolicyNever, Volumes = []\<rparr>\<rparr>"

definition demo_cluster :: cluster where
  "demo_cluster = \<lparr>Pods = [demo_old_pod], PVCs = [], faults = [], log = []\<rparr>"

text \<open>
  The earlier build pod stuck in deletion: a delete has been accepted and the finalizer
  holds the pod back.
\<close>

definition demo_stuck_cluster :: cluster where
  "demo_stuck_cluster =
     \<lparr>Pods = [demo_old_pod\<lparr>PodMeta := (PodMeta demo_old_pod)\<lparr>DeletionTimestamp := True\<rparr>\<rparr>],
      PVCs = [], faults = [], log = []\<rparr>"

text \<open>
  The race of a create with a deletion in flight: the ninth request, which is the create
  of a second call, is answered AlreadyExists.
\<close>

definition demo_race_cluster :: cluster where
  "demo_race_cluster =
     demo_cluster\<lparr>faults := [None, None, None, None, None, None, None, None,
                             Some (ErrAlreadyExists ''tf-docker-build-pod'')]\<rparr>"

text \<open>The build pod of the resource \<open>tf\<close> as the controller's names would have it.\<close>

definition demo_build_pod :: Pod where
  "demo_build_pod =
     buildPodObject ''tf-docker-build-pod'' ''tf'' ''tf-dockerfile''
       ''docker.io/alustan/terraform-controller'' ''tf-pvc'' ''tf-container-secret'' ''/tmp/tf''"

definition demo_CreateBuildPod :: "cluster \<Rightarrow> api_error option \<times> cluster" where
  "demo_CreateBuildPod =
     CreateBuildPod ''tf'' ''default'' ''tf-dockerfile'' ''docker.io/alustan/terraform-controller''
       ''tf-pvc'' ''tf-container-secret'' ''/tmp/tf''"

section \<open>Lemmas on the events of the controller\<close>

lemma call_fst [simp]: "fst (call ev f s) = fst (f (world s))"
  by (simp add: call_def split: prod.splits)

lemma call_trace [simp]: "trace (snd (call ev f s)) = trace s @ [ev (fst (f (world s)))]"
  by (simp add: call_def split: prod.splits)

lemma call_eq: "call ev f s = (r, s') \<Longrightarrow> r = fst (f (world s)) \<and> trace s' = trace s @ [ev r]"
  by (auto simp: call_def split: prod.splits)

lemma updateStatus_trace [simp]:
  "trace (updateStatus X obs st s) =
     trace s @ [EvUpdateStatus (Namespace (Metadata (Parent obs))) (Name (Metadata (Parent obs))) st]"
  by (simp add: updateStatus_def)

lemma setupBackend_trace:
  assumes "setupBackend X backend s = (r, s')"
  shows "\<exists>bs. trace s' = trace s @ bs \<and> list_all is_backend_event bs"
proof (cases "no_provider backend")
  case True
  with assms have "s' = s"
    by (auto simp: setupBackend_def no_provider_def split: option.splits if_splits)
  then show ?thesis by (intro exI[of _ "[]"]) simp
next
  case False
  then obtain b p where b: "backend = Some b" "b \<noteq> []" "map_of b ''provider'' = Some p" "p \<noteq> []"
    by (auto simp: no_provider_def split: option.splits)
  show ?thesis
  proof (cases "GetProvider X p")
    case (Inl e)
    with assms b have "trace s' = trace s @ [EvGetProvider p]"
      by (auto simp: setupBackend_def call_def)
    then show ?thesis by (intro exI[of _ "[EvGetProvider p]"]) simp
  next
    case (Inr prov)
    obtain e w1 where sb: "SetupBackend prov backend (world s) = (e, w1)"
      by (cases "SetupBackend prov backend (world s)")
    obtain a w2 where ga: "GetDockerfileAdditions prov w1 = (a, w2)"
      by (cases "GetDockerfileAdditions prov w1")
    show ?thesis
    proof (cases e)
      case (Some err)
      with assms b Inr sb have "trace s' = trace s @ [EvGetProvider p, EvSetupBackend p backend]"
        by (auto simp: setupBackend_def call_def)
      then show ?thesis by (intro exI[of _ "[EvGetProvider p, EvSetupBackend p backend]"]) simp
    next
      case None
      with assms b Inr sb ga
      have "trace s' = trace s @ [EvGetProvider p, EvSetupBackend p backend, EvGetDockerfileAdditions p]"
        by (auto simp: setupBackend_def call_def)
      then show ?thesis
        by (intro exI[of _ "[EvGetProvider p, EvSetupBackend p backend, EvGetDockerfileAdditions p]"]) simp
    qed
  qed
qed


lemma runTerraform_loop_trace:
  "runTerraform_loop X obs sc img sec env i terr s = (r, s') \<Longrightarrow> i \<le> maxRetries \<Longrightarrow>
   \<exists>errs ok.
     trace s' = trace s
        @ concat (map (\<lambda>e. [EvCreateRunPod (Name (Metadata (Parent obs))) (Namespace (Metadata (Parent obs)))
                                 env sc img sec (Some e), EvSleep (1 * Minute)]) errs)
        @ (if ok then [EvCreateRunPod (Name (Metadata (Parent obs))) (Namespace (Metadata (Parent obs)))
                                 env sc img sec None] else [])
     \<and> (if ok then r = None \<and> i + length errs < maxRetries
         else i + length errs = maxRetries \<and> r = (if errs = [] then terr else Some (last errs)))"
proof (induction X obs sc img sec env i terr s arbitrary: r s' rule: runTerraform_loop.induct)
  case (1 X obs sc img sec env i terr s)
  let ?n = "Name (Metadata (Parent obs))" and ?ns = "Namespace (Metadata (Parent obs))"
  show ?case
  proof (cases "i < maxRetries")
    case False
    with "1.prems" have "r = terr" "s' = s" "i = maxRetries"
      by (simp_all add: runTerraform_loop.simps)
    then show ?thesis
      by (intro exI[of _ "[]"] exI[of _ False]) simp
  next
    case True
    obtain a s1 where c: "call (EvCreateRunPod ?n ?ns env sc img sec) (CreateRunPod X ?n ?ns env sc img sec) s = (a, s1)"
      by (cases "call (EvCreateRunPod ?n ?ns env sc img sec) (CreateRunPod X ?n ?ns env sc img sec) s")
    from call_eq[OF c] have t1: "trace s1 = trace s @ [EvCreateRunPod ?n ?ns env sc img sec a]" by simp
    show ?thesis
    proof (cases a)
      case None
      with "1.prems" True c have "r = None" "s' = s1"
        by (simp_all add: runTerraform_loop.simps)
      with t1 None True show ?thesis
        by (intro exI[of _ "[]"] exI[of _ True]) simp
    next
      case (Some e)
      let ?s2 = "snd (call (\<lambda>_. EvSleep (1 * Minute)) (\<lambda>w. ((), Sleep X (1 * Minute) w)) s1)"
      from "1.prems" True c Some
      have rec: "runTerraform_loop X obs sc img sec env (i + 1) (Some e) ?s2 = (r, s')"
        by (simp add: runTerraform_loop.simps)
      from "1.IH"[OF True c[symmetric] _ rec] Some True
      obtain errs ok where
        tr: "trace s' = trace ?s2
               @ concat (map (\<lambda>e. [EvCreateRunPod ?n ?ns env sc img sec (Some e), EvSleep (1 * Minute)]) errs)
               @ (if ok then [EvCreateRunPod ?n ?ns env sc img sec None] else [])"
        and res: "if ok then r = None \<and> i + 1 + length errs < maxRetries
                  else i + 1 + length errs = maxRetries \<and> r = (if errs = [] then Some e else Some (last errs))"
        by auto
      have t2: "trace ?s2 = trace s @ [EvCreateRunPod ?n ?ns env sc img sec (Some e), EvSleep (1 * Minute)]"
        using t1 Some by simp
      show ?thesis
        using tr res t2
        by (intro exI[of _ "e # errs"] exI[of _ ok]) (auto split: if_splits)
    qed
  qed
qed

lemma runTerraform_shape:
  assumes "runTerraform X obs sc img sec env s = (st, s')"
  shows "\<exists>errs ok.
     trace s' = trace s
        @ concat (map (\<lambda>e. [EvCreateRunPod (Name (Metadata (Parent obs))) (Namespace (Metadata (Parent obs)))
                                 env sc img sec (Some e), EvSleep (1 * Minute)]) errs)
        @ (if ok then [EvCreateRunPod (Name (Metadata (Parent obs))) (Namespace (Metadata (Parent obs)))
                                 env sc img sec None] else [])
     \<and> (if ok then length errs < 10 \<and> st = \<lparr>state = ''Success'', message = ''Terraform applied successfully''\<rparr>
         else length errs = 10 \<and> st = \<lparr>state = ''Failed'', message = last errs\<rparr>)"
proof -
  obtain r where l: "runTerraform_loop X obs sc img sec env 0 None s = (r, s')"
    and st: "st = (case r of Some err \<Rightarrow> \<lparr>state = ''Failed'', message = err\<rparr>
                   | None \<Rightarrow> \<lparr>state = ''Success'', message = ''Terraform applied successfully''\<rparr>)"
    using assms by (auto simp: runTerraform_def Let_def split: prod.splits option.splits)
  have "\<exists>errs ok.
     trace s' = trace s
        @ concat (map (\<lambda>e. [EvCreateRunPod (Name (Metadata (Parent obs))) (Namespace (Metadata (Parent obs)))
                                 env sc img sec (Some e), EvSleep (1 * Minute)]) errs)
        @ (if ok then [EvCreateRunPod (Name (Metadata (Parent obs))) (Namespace (Metadata (Parent obs)))
                                 env sc img sec None] else [])
     \<and> (if ok then r = None \<and> length errs < maxRetries
         else length errs = maxRetries \<and> r = (if errs = [] then None else Some (last errs)))"
    using runTerraform_loop_trace[OF l le0] by (simp only: add_0_left)
  then obtain errs ok where
    tr: "trace s' = trace s
        @ concat (map (\<lambda>e. [EvCreateRunPod (Name (Metadata (Parent obs))) (Namespace (Metadata (Parent obs)))
                                 env sc img sec (Some e), EvSleep (1 * Minute)]) errs)
        @ (if ok then [EvCreateRunPod (Name (Metadata (Parent obs))) (Namespace (Metadata (Parent obs)))
                                 env sc img sec None] else [])"
    and res: "if ok then r = None \<and> length errs < maxRetries
         else length errs = maxRetries \<and> r = (if errs = [] then None else Some (last errs))"
    by blast
  have "if ok then length errs < 10 \<and> st = \<lparr>state = ''Success'', message = ''Terraform applied successfully''\<rparr>
         else length errs = 10 \<and> st = \<lparr>state = ''Failed'', message = last errs\<rparr>"
    using res st by (auto simp: maxRetries_def split: if_splits)
  with tr show ?thesis by blast
qed

lemma runTerraform_events:
  assumes "runTerraform X obs sc img sec env s = (st, s')"
  shows "\<exists>rs. trace s' = trace s @ rs \<and> list_all (\<lambda>e. is_run_event e \<and> runs_script sc e) rs
            \<and> (state st = ''Success'' \<or> state st = ''Failed'')"
proof -
  from runTerraform_shape[OF assms] obtain errs ok where
    tr: "trace s' = trace s
        @ concat (map (\<lambda>e. [EvCreateRunPod (Name (Metadata (Parent obs))) (Namespace (Metadata (Parent obs)))
                                 env sc img sec (Some e), EvSleep (1 * Minute)]) errs)
        @ (if ok then [EvCreateRunPod (Name (Metadata (Parent obs))) (Namespace (Metadata (Parent obs)))
                                 env sc img sec None] else [])"
    and res: "if ok then length errs < 10 \<and> st = \<lparr>state = ''Success'', message = ''Terraform applied successfully''\<rparr>
         else length errs = 10 \<and> st = \<lparr>state = ''Failed'', message = last errs\<rparr>"
    by blast
  let ?rs = "concat (map (\<lambda>e. [EvCreateRunPod (Name (Metadata (Parent obs))) (Namespace (Metadata (Parent obs)))
                                 env sc img sec (Some e), EvSleep (1 * Minute)]) errs)
        @ (if ok then [EvCreateRunPod (Name (Metadata (Parent obs))) (Namespace (Metadata (Parent obs)))
                                 env sc img sec None] else [])"
  have "list_all (\<lambda>e. is_run_event e \<and> runs_script sc e) ?rs"
    by (induction errs) auto
  moreover have "state st = ''Success'' \<or> state st = ''Failed''"
    using res by (auto split: if_splits)
  ultimately show ?thesis using tr by (intro exI[of _ ?rs]) simp
qed

lemma stages_shape_full:
  assumes "handleSyncRequest_stages X env l s = (st, l', s')"
  shows "l' = l \<and> (\<exists>bs cs rs.
           trace s' = trace s @ bs @ cs @ rs
              @ [EvUpdateStatus (Namespace (Metadata (Parent (observed l))))
                   (Name (Metadata (Parent (observed l)))) st]
           \<and> list_all is_backend_event bs \<and> list_all is_build_event cs
           \<and> list_all (\<lambda>e. is_run_event e \<and> runs_script (scriptContent l) e) rs
           \<and> (\<forall>adds pe s1. setupBackend X (Backend (Spec (Parent (observed l)))) s = ((adds, pe, None), s1)
                \<longrightarrow> trace s1 = trace s @ bs
                    \<and> (\<exists>cs'. cs = EvCreateDockerfileConfigMap (Name (Metadata (Parent (observed l))))
                                   (Namespace (Metadata (Parent (observed l)))) adds pe # cs')))"
proof -
  let ?n = "Name (Metadata (Parent (observed l)))" and ?ns = "Namespace (Metadata (Parent (observed l)))"
  obtain adds pe berr s1 where sb: "setupBackend X (Backend (Spec (Parent (observed l)))) s = ((adds, pe, berr), s1)"
    by (metis prod.exhaust)
  from setupBackend_trace[OF sb] obtain bs where bs: "trace s1 = trace s @ bs" "list_all is_backend_event bs"
    by blast
  show ?thesis
  proof (cases berr)
    case (Some e)
    with assms sb have "l' = l" "s' = updateStatus X (observed l) st s1"
      by (auto simp: handleSyncRequest_stages_def Let_def)
    with bs sb Some show ?thesis
      apply -
      apply (rule conjI)
       apply simp
      apply (rule exI[of _ bs])
      apply (rule exI[of _ "[]"])
      apply (rule exI[of _ "[]"])
      apply simp
      done
  next
    case None
    obtain r2 s2 where cm: "call (\<lambda>_. EvCreateDockerfileConfigMap ?n ?ns adds pe)
        (CreateDockerfileConfigMap X ?n ?ns adds pe) s1 = (r2, s2)"
      by (metis prod.exhaust)
    from call_eq[OF cm] have t2: "trace s2 = trace s1 @ [EvCreateDockerfileConfigMap ?n ?ns adds pe]" by simp
    show ?thesis
    proof (cases r2)
      case (Inl e)
      with assms sb None cm have "l' = l" "s' = updateStatus X (observed l) st s2"
        by (auto simp: handleSyncRequest_stages_def Let_def)
      with bs t2 sb show ?thesis
        apply -
        apply (rule conjI)
         apply simp
        apply (rule exI[of _ bs])
        apply (rule exI[of _ "[EvCreateDockerfileConfigMap ?n ?ns adds pe]"])
        apply (rule exI[of _ "[]"])
        apply simp
        done
    next
      case (Inr configMapName)
      let ?sec = "?n @ ''-container-secret''"
      obtain r3 s3 where cs: "call (\<lambda>_. EvCreateDockerConfigSecret ?sec ?ns (Getenv X ''CONTAINER_REGISTRY_SECRET''))
          (CreateDockerConfigSecret X ?sec ?ns (Getenv X ''CONTAINER_REGISTRY_SECRET'')) s2 = (r3, s3)"
        by (metis prod.exhaust)
      from call_eq[OF cs] have t3: "trace s3 = trace s2 @ [EvCreateDockerConfigSecret ?sec ?ns (Getenv X ''CONTAINER_REGISTRY_SECRET'')]" by simp
      show ?thesis
      proof (cases r3)
        case (Some e)
        with assms sb None cm Inr cs have "l' = l" "s' = updateStatus X (observed l) st s3"
          by (auto simp: handleSyncRequest_stages_def Let_def)
        with bs t2 t3 sb show ?thesis
          apply -
          apply (rule conjI)
           apply simp
          apply (rule exI[of _ bs])
          apply (rule exI[of _ "[EvCreateDockerfileConfigMap ?n ?ns adds pe,
                EvCreateDockerConfigSecret ?sec ?ns (Getenv X ''CONTAINER_REGISTRY_SECRET'')]"])
          apply (rule exI[of _ "[]"])
          apply simp
          done
      next
        case None' : None
        obtain r4 s4 where bt: "buildAndTagImage X (observed l) configMapName (Join X ''/tmp'' ?n)
             (Getenv X ''GIT_SSH_SECRET'') ?sec s3 = (r4, s4)"
          by (metis prod.exhaust)
        then obtain ev where t4: "trace s4 = trace s3 @ [ev]" "is_build_event ev"
          by (auto simp: buildAndTagImage_def Let_def dest!: call_eq)
        let ?cs = "[EvCreateDockerfileConfigMap ?n ?ns adds pe,
                EvCreateDockerConfigSecret ?sec ?ns (Getenv X ''CONTAINER_REGISTRY_SECRET''), ev]"
        show ?thesis
        proof (cases r4)
          case (Inl e)
          with assms sb None cm Inr cs None' bt have "l' = l" "s' = updateStatus X (observed l) st s4"
            by (auto simp: handleSyncRequest_stages_def Let_def)
          with bs t2 t3 t4 sb show ?thesis
            apply -
            apply (rule conjI)
             apply simp
            apply (rule exI[of _ bs])
            apply (rule exI[of _ ?cs])
            apply (rule exI[of _ "[]"])
            apply simp
            done
        next
          case (Inr pr)
          obtain img pn where pr: "pr = (img, pn)" by (cases pr)
          obtain st5 s5 where rt: "runTerraform X (observed l) (scriptContent l) img ?sec env s4 = (st5, s5)"
            by (metis prod.exhaust)
          from assms sb None cm \<open>r2 = Inr configMapName\<close> cs None' bt Inr pr rt
          have "l' = l" "st = st5" "s' = updateStatus X (observed l) st s5"
            by (auto simp: handleSyncRequest_stages_def Let_def)
          moreover from runTerraform_events[OF rt] obtain rs where
            "trace s5 = trace s4 @ rs" "list_all (\<lambda>e. is_run_event e \<and> runs_script (scriptContent l) e) rs"
            by blast
          ultimately show ?thesis using bs t2 t3 t4 sb
            apply -
            apply (rule conjI)
             apply simp
            apply (rule exI[of _ bs])
            apply (rule exI[of _ ?cs])
            apply (rule exI[of _ rs])
            apply simp
            done
        qed
      qed
    qed
  qed
qed

lemma stages_shape:
  assumes "handleSyncRequest_stages X env l s = (st, l', s')"
  shows "l' = l \<and> (\<exists>bs cs rs.
           trace s' = trace s @ bs @ cs @ rs
              @ [EvUpdateStatus (Namespace (Metadata (Parent (observed l))))
                   (Name (Metadata (Parent (observed l)))) st]
           \<and> list_all is_backend_event bs \<and> list_all is_build_event cs
           \<and> list_all (\<lambda>e. is_run_event e \<and> runs_script (scriptContent l) e) rs)"
  using stages_shape_full[OF assms] by blast

lemma handleSyncRequest_cases:
  assumes "handleSyncRequest X request s = (st, l, s')"
  obtains
    (no_deploy) "Deploy (Scripts (Spec (Parent request))) = []"
      "st = errorResponse ''executing deploy script'' ''deploy script is missing''"
      "l = \<lparr>observed = request, scriptContent = []\<rparr>"
      "s' = updateStatus X request st s"
  | (no_destroy) "Deploy (Scripts (Spec (Parent request))) \<noteq> []" "Finalizing request"
      "Destroy (Scripts (Spec (Parent request))) = []"
      "st = errorResponse ''executing destroy script'' ''destroy script is missing''"
      "l = \<lparr>observed = request, scriptContent = []\<rparr>"
      "s' = updateStatus X request st s"
  | (stages) "Deploy (Scripts (Spec (Parent request))) \<noteq> []"
      "Finalizing request \<longrightarrow> Destroy (Scripts (Spec (Parent request))) \<noteq> []"
      "handleSyncRequest_stages X (extractEnvVars X (Variables (Spec (Parent request))))
         \<lparr>observed = request,
          scriptContent = (if Finalizing request then Destroy (Scripts (Spec (Parent request)))
                           else Deploy (Scripts (Spec (Parent request))))\<rparr> s = (st, l, s')"
  using assms
  by (auto simp: handleSyncRequest_def Let_def split: if_splits)

lemma handleSyncRequest_shape:
  assumes "handleSyncRequest X request s = (st, l, s')"
  shows "observed l = request \<and> (\<exists>bs cs rs.
           trace s' = trace s @ bs @ cs @ rs
              @ [EvUpdateStatus (Namespace (Metadata (Parent request)))
                   (Name (Metadata (Parent request))) st]
           \<and> list_all is_backend_event bs \<and> list_all is_build_event cs
           \<and> list_all (\<lambda>e. is_run_event e \<and> runs_script (scriptContent l) e) rs)"
  using assms
proof (cases rule: handleSyncRequest_cases)
  case no_deploy
  then show ?thesis
    by (intro conjI exI[of _ "[]"]) simp_all
next
  case no_destroy
  then show ?thesis
    by (intro conjI exI[of _ "[]"]) simp_all
next
  case stages
  from stages_shape[OF stages(3)] show ?thesis by simp
qed





lemma setupBackend_no_provider:
  "no_provider backend \<Longrightarrow> setupBackend X backend s = (([], False, None), s)"
  by (auto simp: setupBackend_def no_provider_def split: option.splits)

lemma setupBackend_unknown_provider:
  assumes "backend = Some b" "map_of b ''provider'' = Some p" "p \<noteq> []" "GetProvider X p = Inl e"
  shows "setupBackend X backend s =
           (([], False, Some (''error getting provider: '' @ e)),
            \<lparr>world = world s, trace = trace s @ [EvGetProvider p]\<rparr>)"
proof -
  from assms have "b \<noteq> []" by auto
  with assms show ?thesis
    by (simp add: setupBackend_def call_def)
qed

lemma sublist_errorResponse: "sublist err (message (errorResponse action err))"
proof -
  have "message (errorResponse action err) = (''Error '' @ action @ '': '') @ err @ []"
    by (simp add: errorResponse_def)
  then show ?thesis
    unfolding sublist_def by blast
qed

lemma stages_outcome:
  assumes "handleSyncRequest_stages X env l s = (st, l', s')"
  shows "(case setupBackend X (Backend (Spec (Parent (observed l)))) s of
         ((adds, pe, Some cause), s1) \<Rightarrow>
            st = \<lparr>state = ''error'', message = ''Error setting up backend: '' @ cause\<rparr>
       | ((adds, pe, None), s1) \<Rightarrow>
          (case CreateDockerfileConfigMap X (Name (Metadata (Parent (observed l))))
                  (Namespace (Metadata (Parent (observed l)))) adds pe (world s1) of
             (Inl cause, w2) \<Rightarrow>
               st = \<lparr>state = ''error'', message = ''Error creating Dockerfile ConfigMap: '' @ cause\<rparr>
           | (Inr configMapName, w2) \<Rightarrow>
              (case CreateDockerConfigSecret X (Name (Metadata (Parent (observed l))) @ ''-container-secret'')
                      (Namespace (Metadata (Parent (observed l))))
                      (Getenv X ''CONTAINER_REGISTRY_SECRET'') w2 of
                 (Some cause, w3) \<Rightarrow>
                   st = \<lparr>state = ''error'', message = ''Error creating Docker config secret: '' @ cause\<rparr>
               | (None, w3) \<Rightarrow>
                  (case container_CreateBuildPod X (Name (Metadata (Parent (observed l))))
                          (Namespace (Metadata (Parent (observed l)))) configMapName
                          (ImageName (ContainerRegistry (Spec (Parent (observed l)))))
                          (Name (Metadata (Parent (observed l))) @ ''-container-secret'')
                          (Join X ''/tmp'' (Name (Metadata (Parent (observed l)))))
                          (URL (GitRepo (Spec (Parent (observed l)))))
                          (Branch (GitRepo (Spec (Parent (observed l)))))
                          (Getenv X ''GIT_SSH_SECRET'') w3 of
                     (Inl cause, w4) \<Rightarrow>
                       st = \<lparr>state = ''error'', message = ''Error creating build job: '' @ cause\<rparr>
                   | (Inr built, w4) \<Rightarrow> state st = ''Success'' \<or> state st = ''Failed''))))"
proof -
  let ?n = "Name (Metadata (Parent (observed l)))" and ?ns = "Namespace (Metadata (Parent (observed l)))"
  let ?sec = "?n @ ''-container-secret''"
  obtain adds pe berr s1 where sb: "setupBackend X (Backend (Spec (Parent (observed l)))) s = ((adds, pe, berr), s1)"
    by (metis prod.exhaust)
  show ?thesis
  proof (cases berr)
    case (Some e)
    with assms sb have "st = errorResponse ''setting up backend'' e"
      by (auto simp: handleSyncRequest_stages_def Let_def)
    with sb Some show ?thesis by (simp add: errorResponse_def)
  next
    case None
    obtain r2 w2 where cm: "CreateDockerfileConfigMap X ?n ?ns adds pe (world s1) = (r2, w2)"
      by (metis prod.exhaust)
    let ?s2 = "\<lparr>world = w2, trace = trace s1 @ [EvCreateDockerfileConfigMap ?n ?ns adds pe]\<rparr>"
    have c2: "call (\<lambda>_. EvCreateDockerfileConfigMap ?n ?ns adds pe)
        (CreateDockerfileConfigMap X ?n ?ns adds pe) s1 = (r2, ?s2)"
      using cm by (simp add: call_def)
    show ?thesis
    proof (cases r2)
      case (Inl e)
      with assms sb None c2 have "st = errorResponse ''creating Dockerfile ConfigMap'' e"
        by (auto simp: handleSyncRequest_stages_def Let_def)
      with sb None cm Inl show ?thesis by (simp add: errorResponse_def)
    next
      case (Inr configMapName)
      obtain r3 w3 where cs: "CreateDockerConfigSecret X ?sec ?ns (Getenv X ''CONTAINER_REGISTRY_SECRET'') w2 = (r3, w3)"
        by (metis prod.exhaust)
      let ?s3 = "\<lparr>world = w3, trace = trace ?s2
                   @ [EvCreateDockerConfigSecret ?sec ?ns (Getenv X ''CONTAINER_REGISTRY_SECRET'')]\<rparr>"
      have c3: "call (\<lambda>_. EvCreateDockerConfigSecret ?sec ?ns (Getenv X ''CONTAINER_REGISTRY_SECRET''))
          (CreateDockerConfigSecret X ?sec ?ns (Getenv X ''CONTAINER_REGISTRY_SECRET'')) ?s2 = (r3, ?s3)"
        using cs by (simp add: call_def)
      show ?thesis
      proof (cases r3)
        case (Some e)
        with assms sb None c2 Inr c3 have "st = errorResponse ''creating Docker config secret'' e"
          by (auto simp: handleSyncRequest_stages_def Let_def)
        with sb None cm Inr cs Some show ?thesis by (simp add: errorResponse_def)
      next
        case None' : None
        obtain r4 w4 where cb: "container_CreateBuildPod X ?n ?ns configMapName
                   (ImageName (ContainerRegistry (Spec (Parent (observed l))))) ?sec
                   (Join X ''/tmp'' ?n)
                   (URL (GitRepo (Spec (Parent (observed l)))))
                   (Branch (GitRepo (Spec (Parent (observed l)))))
                   (Getenv X ''GIT_SSH_SECRET'') w3 = (r4, w4)"
          by (metis prod.exhaust)
        obtain s4 where bt: "buildAndTagImage X (observed l) configMapName (Join X ''/tmp'' ?n)
             (Getenv X ''GIT_SSH_SECRET'') ?sec ?s3 = (r4, s4)"
          using cb by (simp add: buildAndTagImage_def Let_def call_def)
        show ?thesis
        proof (cases r4)
          case (Inl e)
          with assms sb None c2 Inr c3 None' bt have "st = errorResponse ''creating build job'' e"
            by (auto simp: handleSyncRequest_stages_def Let_def)
          with sb None cm \<open>r2 = Inr configMapName\<close> cs None' cb Inl show ?thesis
            by (simp add: errorResponse_def)
        next
          case (Inr pr)
          obtain img pn where pr: "pr = (img, pn)" by (cases pr)
          obtain st5 s5 where rt: "runTerraform X (observed l) (scriptContent l) img ?sec env s4 = (st5, s5)"
            by (metis prod.exhaust)
          from assms sb None c2 \<open>r2 = Inr configMapName\<close> c3 None' bt Inr pr rt
          have "st = st5"
            by (auto simp: handleSyncRequest_stages_def Let_def)
          moreover from runTerraform_events[OF rt] have "state st5 = ''Success'' \<or> state st5 = ''Failed''"
            by (elim exE conjE)
          ultimately have "state st = ''Success'' \<or> state st = ''Failed''" by simp
          with sb None cm \<open>r2 = Inr configMapName\<close> cs None' cb Inr show ?thesis
            by simp
        qed
      qed
    qed
  qed
qed

lemma setupBackend_provider_outcome:
  assumes "map_of b ''provider'' = Some p" "p \<noteq> []"
  shows "(case GetProvider X p of
            Inl cause \<Rightarrow>
              fst (setupBackend X (Some b) s) = ([], False, Some (''error getting provider: '' @ cause))
          | Inr provider \<Rightarrow>
              (case SetupBackend provider (Some b) (world s) of
                 (Some cause, w1) \<Rightarrow>
                   fst (setupBackend X (Some b) s) =
                     ([], False, Some (''error setting up '' @ p @ '' backend: '' @ cause))
               | (None, w1) \<Rightarrow>
                   fst (setupBackend X (Some b) s) = (fst (GetDockerfileAdditions provider w1), True, None)))"
proof -
  from assms have "b \<noteq> []" by auto
  with assms show ?thesis
    by (auto simp: setupBackend_def call_def split: sum.splits prod.splits option.splits)
qed

section \<open>Lemmas on the requests of the build pod\<close>

lemma EnsurePVC_log:
  "EnsurePVC ns pvcName c = (r, c') \<Longrightarrow> log c' = log c @ [(ReqEnsurePVC ns pvcName, reply_of r)]"
  by (auto simp: EnsurePVC_def next_fault_def logged_def reply_of_def split: list.splits option.splits if_splits)

lemma GetPod_log:
  "GetPod ns name c = (r, c') \<Longrightarrow>
     log c' = log c @ [(ReqGet ns name, case r of Inl e \<Rightarrow> Failed e | Inr p \<Rightarrow> Found p)]"
  by (auto simp: GetPod_def next_fault_def logged_def split: list.splits option.splits if_splits)

lemma PatchPodFinalizers_log:
  "PatchPodFinalizers ns name c = (r, c') \<Longrightarrow>
     log c' = log c @ [(ReqPatchFinalizers ns name, reply_of r)]"
  by (auto simp: PatchPodFinalizers_def next_fault_def logged_def reply_of_def split: list.splits option.splits)

lemma DeletePod_log:
  "DeletePod ns name c = (r, c') \<Longrightarrow> log c' = log c @ [(ReqDelete ns name, reply_of r)]"
  by (auto simp: DeletePod_def next_fault_def logged_def reply_of_def split: list.splits option.splits if_splits)

lemma CreatePod_log:
  "CreatePod ns pod c = (r, c') \<Longrightarrow> log c' = log c @ [(ReqCreate ns pod, reply_of r)]"
  by (auto simp: CreatePod_def next_fault_def logged_def reply_of_def split: list.splits option.splits if_splits)


lemma reply_of_simps [simp]: "reply_of None = Done" "reply_of (Some e) = Failed e"
  by (simp_all add: reply_of_def)

lemma found_pod_reply_of [simp]: "found_pod ((rq, reply_of r) # es) = found_pod es"
  by (cases r) (simp_all add: reply_of_def)

lemma found_pod_patch_entries [simp]: "found_pod (patch_entries ns podName p @ es) = found_pod es"
  by (simp add: patch_entries_def)

lemma EnsurePVC_pods: "EnsurePVC ns pvcName c = (r, c') \<Longrightarrow> Pods c' = Pods c"
  by (auto simp: EnsurePVC_def next_fault_def logged_def split: list.splits option.splits if_splits)

lemma GetPod_found: "GetPod ns name c = (Inr p, c') \<Longrightarrow> find (is_pod ns name) (Pods c) = Some p"
  by (auto simp: GetPod_def next_fault_def logged_def split: list.splits option.splits if_splits)

lemma CreateBuildPod_protocol:
  assumes "CreateBuildPod name ns configMapName imageName pvcName dockerSecretName repoDir c = (err, c')"
  shows "\<exists>entries. log c' = log c @ entries
           \<and> build_protocol ns pvcName (name @ ''-docker-build-pod'')
                 (buildPodObject (name @ ''-docker-build-pod'') name configMapName imageName pvcName
                    dockerSecretName repoDir) err entries
           \<and> (\<forall>p. found_pod entries = Some p
                  \<longrightarrow> find (is_pod ns (name @ ''-docker-build-pod'')) (Pods c) = Some p)"
proof -
  let ?pn = "name @ ''-docker-build-pod''"
  let ?pod = "buildPodObject ?pn name configMapName imageName pvcName dockerSecretName repoDir"
  obtain r1 c1 where pvc: "EnsurePVC ns pvcName c = (r1, c1)" by (metis prod.exhaust)
  note l1 = EnsurePVC_log[OF pvc]
  show ?thesis
  proof (cases r1)
    case (Some e)
    with assms pvc have "err = Some e" "c' = c1"
      by (simp_all add: CreateBuildPod_def)
    with l1 Some show ?thesis
      by (intro exI[of _ "[(ReqEnsurePVC ns pvcName, Failed e)]"])
         (simp add: build_protocol_def)
  next
    case None
    obtain r2 c2 where get: "GetPod ns ?pn c1 = (r2, c2)" by (metis prod.exhaust)
    note l2 = GetPod_log[OF get]
    show ?thesis
    proof (cases r2)
      case (Inl e)
      show ?thesis
      proof (cases "IsNotFound e")
        case False
        with assms pvc None get Inl have "err = Some e" "c' = c2"
          by (simp_all add: CreateBuildPod_def Let_def)
        with l1 l2 None Inl False show ?thesis
          by (intro exI[of _ "[(ReqEnsurePVC ns pvcName, Done), (ReqGet ns ?pn, Failed e)]"])
             (simp add: build_protocol_def)
      next
        case True
        with assms pvc None get Inl have cr: "CreatePod ns ?pod c2 = (err, c')"
          by (simp add: CreateBuildPod_def Let_def)
        from CreatePod_log[OF cr] l1 l2 None Inl True show ?thesis
          by (intro exI[of _ "[(ReqEnsurePVC ns pvcName, Done), (ReqGet ns ?pn, Failed e),
                               (ReqCreate ns ?pod, reply_of err)]"])
             (simp add: build_protocol_def)
      qed
    next
      case (Inr p)
      from GetPod_found[of ns ?pn c1 p c2] get Inr EnsurePVC_pods[OF pvc]
      have fnd: "find (is_pod ns ?pn) (Pods c) = Some p" by simp
      obtain r3 c3 where rm: "(if length (Finalizers (PodMeta p)) > 0
                       then removeFinalizers ns ?pn c2 else (None, c2)) = (r3, c3)"
        by (metis prod.exhaust)
      have l3: "log c3 = log c2 @ (if Finalizers (PodMeta p) \<noteq> []
                                   then [(ReqPatchFinalizers ns ?pn, reply_of r3)] else [])"
        using rm by (auto simp: removeFinalizers_def split: if_splits dest: PatchPodFinalizers_log)
      have r3: "Finalizers (PodMeta p) = [] \<Longrightarrow> r3 = None"
        using rm by (auto split: if_splits)
      show ?thesis
      proof (cases r3)
        case (Some e)
        with assms pvc None get Inr rm have "err = Some e" "c' = c3"
          by (simp_all add: CreateBuildPod_def Let_def)
        moreover from Some r3 have "Finalizers (PodMeta p) \<noteq> []" by auto
        ultimately show ?thesis using l1 l2 l3 None Inr Some fnd
          by (intro exI[of _ "[(ReqEnsurePVC ns pvcName, Done), (ReqGet ns ?pn, Found p),
                               (ReqPatchFinalizers ns ?pn, Failed e)]"])
             (simp add: build_protocol_def)
      next
        case None' : None
        obtain r4 c4 where del: "DeletePod ns ?pn c3 = (r4, c4)" by (metis prod.exhaust)
        note l4 = DeletePod_log[OF del]
        have l3': "log c3 = log c2 @ patch_entries ns ?pn p"
          using l3 None' by (simp add: patch_entries_def)
        show ?thesis
        proof (cases r4)
          case (Some e)
          with assms pvc None get Inr rm None' del have "err = Some e" "c' = c4"
            by (simp_all add: CreateBuildPod_def Let_def)
          with l1 l2 l3' l4 None Inr Some fnd show ?thesis
            by (intro exI[of _ "[(ReqEnsurePVC ns pvcName, Done), (ReqGet ns ?pn, Found p)]
                        @ patch_entries ns ?pn p @ [(ReqDelete ns ?pn, Failed e)]"])
               (simp add: build_protocol_def)
        next
          case None'' : None
          with assms pvc None get Inr rm None' del have cr: "CreatePod ns ?pod c4 = (err, c')"
            by (simp add: CreateBuildPod_def Let_def)
          from CreatePod_log[OF cr] l1 l2 l3' l4 None Inr None'' fnd show ?thesis
            by (intro exI[of _ "[(ReqEnsurePVC ns pvcName, Done), (ReqGet ns ?pn, Found p)]
                        @ patch_entries ns ?pn p
                        @ [(ReqDelete ns ?pn, Done), (ReqCreate ns ?pod, reply_of err)]"])
               (simp add: build_protocol_def)
        qed
      qed
    qed
  qed
qed


lemma CreateBuildPod_empty_namespace:
  assumes "CreateBuildPod name [] configMapName imageName pvcName dockerSecretName repoDir c = (err, c')"
  shows "err \<noteq> None"
  using assms
  by (auto simp: CreateBuildPod_def Let_def GetPod_def empty_namespace_named_def
           split: prod.splits option.splits)

lemma CreatePod_success:
  assumes "CreatePod ns pod c = (None, c')"
  shows "filter (is_pod ns (Name (PodMeta pod))) (Pods c') = [in_namespace ns pod]"
proof -
  obtain f c1 where nf: "next_fault c = (f, c1)" by (metis prod.exhaust)
  with assms have none: "find (is_pod ns (Name (PodMeta pod))) (Pods c1) = None"
    and c': "Pods c' = Pods c1 @ [in_namespace ns pod]"
    by (auto simp: CreatePod_def logged_def split: option.splits if_splits)
  from none have "filter (is_pod ns (Name (PodMeta pod))) (Pods c1) = []"
    by (simp add: find_None_iff filter_empty_conv)
  with c' show ?thesis by (simp add: is_pod_def in_namespace_def)
qed

lemma CreateBuildPod_ends_with_create:
  assumes "CreateBuildPod name ns configMapName imageName pvcName dockerSecretName repoDir c = (None, c')"
  shows "\<exists>cx. CreatePod ns (buildPodObject (name @ ''-docker-build-pod'') name configMapName imageName
                  pvcName dockerSecretName repoDir) cx = (None, c')"
  using assms
  by (auto simp: CreateBuildPod_def Let_def split: prod.splits option.splits sum.splits if_splits)

lemma buildPodObject_name [simp]:
  "Name (PodMeta (buildPodObject podName name configMapName imageName pvcName dockerSecretName repoDir)) = podName"
  by (simp add: buildPodObject_def)

lemma CreateBuildPod_success:
  assumes "CreateBuildPod name ns configMapName imageName pvcName dockerSecretName repoDir c = (None, c')"
  shows "filter (is_pod ns (name @ ''-docker-build-pod'')) (Pods c') =
           [in_namespace ns (buildPodObject (name @ ''-docker-build-pod'') name configMapName imageName
                  pvcName dockerSecretName repoDir)]"
proof -
  from CreateBuildPod_ends_with_create[OF assms] obtain cx where
    "CreatePod ns (buildPodObject (name @ ''-docker-build-pod'') name configMapName imageName
                  pvcName dockerSecretName repoDir) cx = (None, c')" by blast
  from CreatePod_success[OF this] show ?thesis by simp
qed

lemma build_protocol_targets:
  assumes "build_protocol ns pvcName podName pod err entries" "Name (PodMeta pod) = podName"
  shows "\<forall>x\<in>set entries. request_pod (fst x) = None \<or> request_pod (fst x) = Some (ns, podName)"
  using assms
  by (auto simp: build_protocol_def patch_entries_def split: if_splits)

lemma build_protocol_prefix:
  assumes "build_protocol ns pvcName podName pod err entries"
  shows "prefix (map fst entries)
           (ReqEnsurePVC ns pvcName # ensure_fresh_requests ns podName (found_pod entries) pod)
       \<and> (err = None \<longrightarrow> map fst entries =
             ReqEnsurePVC ns pvcName # ensure_fresh_requests ns podName (found_pod entries) pod)"
  using assms
  by (auto simp: build_protocol_def patch_entries_def ensure_fresh_requests_def
           split: if_splits)

lemma build_protocol_failures:
  assumes "build_protocol ns pvcName podName pod err entries"
  shows "(\<forall>e. (ReqGet ns podName, Failed e) \<in> set entries \<and> \<not> IsNotFound e \<longrightarrow>
            err = Some e
            \<and> list_all (\<lambda>x. \<not> is_patch (fst x) \<and> \<not> is_delete (fst x) \<and> \<not> is_create (fst x)) entries)
     \<and> (\<forall>rq e. (rq, Failed e) \<in> set entries \<and> (is_patch rq \<or> is_delete rq) \<longrightarrow>
            err = Some e \<and> list_all (\<lambda>x. \<not> is_create (fst x)) entries)
     \<and> (\<forall>x\<in>set entries. is_create (fst x) \<longrightarrow>
            x = last entries
            \<and> ((ReqDelete ns podName, Done) \<in> set entries
                \<or> (\<exists>e. IsNotFound e \<and> (ReqGet ns podName, Failed e) \<in> set entries)))"
  using assms
  by (auto simp: build_protocol_def patch_entries_def split: if_splits)


lemma live_pods_of_filter:
  assumes "filter (is_pod ns podName) (Pods c) = [p]" "\<not> DeletionTimestamp (PodMeta p)"
  shows "live_pods ns podName c = [p]"
proof -
  have "live_pods ns podName c =
          filter (\<lambda>q. \<not> DeletionTimestamp (PodMeta q)) (filter (is_pod ns podName) (Pods c))"
    by (simp add: live_pods_def conj_commute)
  with assms show ?thesis by simp
qed

lemma CreateBuildPod_live:
  assumes "CreateBuildPod name ns configMapName imageName pvcName dockerSecretName repoDir c = (None, c')"
  shows "live_pods ns (name @ ''-docker-build-pod'') c' =
           [in_namespace ns (buildPodObject (name @ ''-docker-build-pod'') name configMapName imageName
                  pvcName dockerSecretName repoDir)]"
  by (rule live_pods_of_filter[OF CreateBuildPod_success[OF assms]])
     (simp add: in_namespace_def buildPodObject_def)

lemma next_fault_none: "faults c = [] \<Longrightarrow> next_fault c = (None, c)"
  by (simp add: next_fault_def)

lemma find_filter_hd: "find P xs = Some p \<Longrightarrow> \<exists>ys. filter P xs = p # ys"
  by (induction xs) (auto split: if_splits)

lemma find_filter_none: "find P xs = None \<Longrightarrow> filter P xs = []"
  by (simp add: find_None_iff filter_empty_conv)

lemma filter_single_find:
  assumes "length (filter P xs) \<le> 1"
  shows "(find P xs = None \<and> filter P xs = []) \<or> (\<exists>p. find P xs = Some p \<and> filter P xs = [p])"
proof (cases "find P xs")
  case None
  then show ?thesis by (simp add: find_filter_none)
next
  case (Some p)
  from find_filter_hd[OF Some] obtain ys where "filter P xs = p # ys" by blast
  with assms Some show ?thesis by simp
qed

lemma filter_single_find_some:
  assumes "filter P xs = [p]"
  shows "\<exists>q. find P xs = Some q"
proof -
  from assms have "p \<in> set (filter P xs)" by simp
  then have "p \<in> set xs" "P p" by auto
  then have "find P xs \<noteq> None" by (auto simp: find_None_iff)
  then show ?thesis by auto
qed

lemma filter_concat_map_if:
  "filter P (concat (map (\<lambda>q. if P q then g q else [q]) xs)) =
     concat (map (\<lambda>q. filter P (g q)) (filter P xs))"
  by (induction xs) auto

lemma settled_ensure:
  assumes "settled ns podName c"
  shows "\<exists>c1. EnsurePVC ns pvcName c = (None, c1) \<and> Pods c1 = Pods c \<and> faults c1 = []"
  using assms
  by (auto simp: settled_def EnsurePVC_def next_fault_none logged_def)

lemma fault_free_get:
  assumes "faults c = []" "ns \<noteq> []"
  shows "\<exists>c2. GetPod ns name c =
            (case find (is_pod ns name) (Pods c) of None \<Rightarrow> Inl (ErrNotFound name) | Some p \<Rightarrow> Inr p, c2)
          \<and> Pods c2 = Pods c \<and> faults c2 = []"
  using assms
  by (auto simp: GetPod_def next_fault_none logged_def split: option.splits)

lemma fault_free_create:
  assumes "faults c = []" "filter (is_pod ns (Name (PodMeta pod))) (Pods c) = []" "ns \<noteq> []"
  shows "\<exists>c'. CreatePod ns pod c = (None, c') \<and> Pods c' = Pods c @ [in_namespace ns pod] \<and> faults c' = []"
proof -
  from assms(2) have "find (is_pod ns (Name (PodMeta pod))) (Pods c) = None"
    by (simp add: find_None_iff filter_empty_conv)
  with assms(1,3) show ?thesis
    by (simp add: CreatePod_def next_fault_none logged_def)
qed

lemma fault_free_patch:
  assumes "faults c = []" "filter (is_pod ns name) (Pods c) = [p]" "\<not> DeletionTimestamp (PodMeta p)"
  shows "\<exists>c'. PatchPodFinalizers ns name c = (None, c')
      \<and> filter (is_pod ns name) (Pods c') = [p\<lparr>PodMeta := (PodMeta p)\<lparr>Finalizers := []\<rparr>\<rparr>]
      \<and> faults c' = []"
proof -
  from filter_single_find_some[OF assms(2)]
  obtain q where q: "find (is_pod ns name) (Pods c) = Some q" by blast
  let ?g = "\<lambda>q. if DeletionTimestamp (PodMeta q) then []
                  else [q\<lparr>PodMeta := (PodMeta q)\<lparr>Finalizers := []\<rparr>\<rparr>]"
  let ?c' = "logged (ReqPatchFinalizers ns name) Done
              (c\<lparr>Pods := concat (map (\<lambda>q. if is_pod ns name q then ?g q else [q]) (Pods c))\<rparr>)"
  have r: "PatchPodFinalizers ns name c = (None, ?c')"
    using assms(1) q by (simp add: PatchPodFinalizers_def next_fault_none)
  have "filter (is_pod ns name) (Pods ?c') = concat (map (\<lambda>q. filter (is_pod ns name) (?g q)) [p])"
    using filter_concat_map_if[of "is_pod ns name" ?g "Pods c"] assms(2)
    by (simp add: logged_def)
  also have "\<dots> = [p\<lparr>PodMeta := (PodMeta p)\<lparr>Finalizers := []\<rparr>\<rparr>]"
  proof -
    from assms(2) have "p \<in> set (filter (is_pod ns name) (Pods c))" by simp
    then have "is_pod ns name p" by simp
    with assms(3) show ?thesis by (simp add: is_pod_def)
  qed
  finally show ?thesis using r assms(1) by (intro exI[of _ ?c']) (simp add: logged_def)
qed

lemma fault_free_delete:
  assumes "faults c = []" "filter (is_pod ns name) (Pods c) = [p]" "Finalizers (PodMeta p) = []"
    "ns \<noteq> []"
  shows "\<exists>c'. DeletePod ns name c = (None, c')
      \<and> filter (is_pod ns name) (Pods c') = [] \<and> faults c' = []"
proof -
  from filter_single_find_some[OF assms(2)]
  obtain q where q: "find (is_pod ns name) (Pods c) = Some q" by blast
  let ?g = "\<lambda>q. if Finalizers (PodMeta q) = [] then []
                  else [q\<lparr>PodMeta := (PodMeta q)\<lparr>DeletionTimestamp := True\<rparr>\<rparr>]"
  let ?c' = "logged (ReqDelete ns name) Done
              (c\<lparr>Pods := concat (map (\<lambda>q. if is_pod ns name q then ?g q else [q]) (Pods c))\<rparr>)"
  have r: "DeletePod ns name c = (None, ?c')"
    using assms(1,4) q by (simp add: DeletePod_def next_fault_none)
  have "filter (is_pod ns name) (Pods ?c') = concat (map (\<lambda>q. filter (is_pod ns name) (?g q)) [p])"
    using filter_concat_map_if[of "is_pod ns name" ?g "Pods c"] assms(2)
    by (simp add: logged_def)
  also have "\<dots> = []" using assms(3) by simp
  finally show ?thesis using r assms(1) by (intro exI[of _ ?c']) (simp add: logged_def)
qed

lemma CreateBuildPod_settled:
  assumes "settled ns (name @ ''-docker-build-pod'') c"
  shows "\<exists>c'. CreateBuildPod name ns configMapName imageName pvcName dockerSecretName repoDir c = (None, c')
           \<and> settled ns (name @ ''-docker-build-pod'') c'"
proof -
  let ?pn = "name @ ''-docker-build-pod''"
  let ?pod = "buildPodObject ?pn name configMapName imageName pvcName dockerSecretName repoDir"
  from assms have nz: "ns \<noteq> []" by (simp add: settled_def)
  from assms have ff: "faults c = []" and one: "length (filter (is_pod ns ?pn) (Pods c)) \<le> 1"
    and live: "list_all (\<lambda>p. \<not> DeletionTimestamp (PodMeta p)) (filter (is_pod ns ?pn) (Pods c))"
    by (simp_all add: settled_def)
  from settled_ensure[OF assms] obtain c1 where
    pvc: "EnsurePVC ns pvcName c = (None, c1)" and p1: "Pods c1 = Pods c" and f1: "faults c1 = []"
    by blast
  from fault_free_get[OF f1 nz] obtain c2 where
    get: "GetPod ns ?pn c1 =
            (case find (is_pod ns ?pn) (Pods c1) of None \<Rightarrow> Inl (ErrNotFound ?pn) | Some p \<Rightarrow> Inr p, c2)"
    and p2: "Pods c2 = Pods c1" and f2: "faults c2 = []"
    by blast
  have fin: "\<exists>c'. CreateBuildPod name ns configMapName imageName pvcName dockerSecretName repoDir c = (None, c')
           \<and> Pods c' = Pods c' \<and> faults c' = []
           \<and> filter (is_pod ns ?pn) (Pods c') = [in_namespace ns ?pod]"
    using filter_single_find[OF one]
  proof (elim disjE conjE exE)
    assume none: "find (is_pod ns ?pn) (Pods c) = None" and emp: "filter (is_pod ns ?pn) (Pods c) = []"
    from emp p1 p2 have "filter (is_pod ns (Name (PodMeta ?pod))) (Pods c2) = []" by simp
    from fault_free_create[OF f2 this nz] obtain c' where
      cr: "CreatePod ns ?pod c2 = (None, c')" and pc: "Pods c' = Pods c2 @ [in_namespace ns ?pod]"
      and fc: "faults c' = []" by blast
    from pvc get none p1 cr
    have "CreateBuildPod name ns configMapName imageName pvcName dockerSecretName repoDir c = (None, c')"
      by (simp add: CreateBuildPod_def Let_def)
    moreover from CreatePod_success[OF cr] have "filter (is_pod ns ?pn) (Pods c') = [in_namespace ns ?pod]"
      by simp
    ultimately show ?thesis using fc by blast
  next
    fix p assume some: "find (is_pod ns ?pn) (Pods c) = Some p" and sing: "filter (is_pod ns ?pn) (Pods c) = [p]"
    from live sing have nd: "\<not> DeletionTimestamp (PodMeta p)" by simp
    from sing p1 p2 have s2: "filter (is_pod ns ?pn) (Pods c2) = [p]" by simp
    obtain c3 p3 where
      rm: "(if length (Finalizers (PodMeta p)) > 0 then removeFinalizers ns ?pn c2 else (None, c2)) = (None, c3)"
      and s3: "filter (is_pod ns ?pn) (Pods c3) = [p3]" and e3: "Finalizers (PodMeta p3) = []"
      and f3: "faults c3 = []"
    proof (cases "Finalizers (PodMeta p) = []")
      case True
      with s2 f2 show ?thesis by (intro that[of c2 p]) simp_all
    next
      case False
      from fault_free_patch[OF f2 s2 nd] obtain c3 where
        "PatchPodFinalizers ns ?pn c2 = (None, c3)"
        "filter (is_pod ns ?pn) (Pods c3) = [p\<lparr>PodMeta := (PodMeta p)\<lparr>Finalizers := []\<rparr>\<rparr>]"
        "faults c3 = []" by blast
      with False show ?thesis
        by (intro that[of c3 "p\<lparr>PodMeta := (PodMeta p)\<lparr>Finalizers := []\<rparr>\<rparr>"])
           (simp_all add: removeFinalizers_def)
    qed
    from fault_free_delete[OF f3 s3 e3 nz] obtain c4 where
      del: "DeletePod ns ?pn c3 = (None, c4)" and s4: "filter (is_pod ns ?pn) (Pods c4) = []"
      and f4: "faults c4 = []" by blast
    from s4 have "filter (is_pod ns (Name (PodMeta ?pod))) (Pods c4) = []" by simp
    from fault_free_create[OF f4 this nz] obtain c' where
      cr: "CreatePod ns ?pod c4 = (None, c')" and fc: "faults c' = []" by blast
    from pvc get some p1 rm del cr
    have "CreateBuildPod name ns configMapName imageName pvcName dockerSecretName repoDir c = (None, c')"
      by (simp add: CreateBuildPod_def Let_def)
    moreover from CreatePod_success[OF cr] have "filter (is_pod ns ?pn) (Pods c') = [in_namespace ns ?pod]"
      by simp
    ultimately show ?thesis using fc by blast
  qed
  then obtain c' where
    "CreateBuildPod name ns configMapName imageName pvcName dockerSecretName repoDir c = (None, c')"
    "faults c' = []" "filter (is_pod ns ?pn) (Pods c') = [in_namespace ns ?pod]"
    by blast
  moreover have "\<not> DeletionTimestamp (PodMeta (in_namespace ns ?pod))"
    by (simp add: in_namespace_def buildPodObject_def)
  ultimately show ?thesis using nz
    by (intro exI[of _ c']) (simp add: settled_def)
qed

section \<open>Properties of the controller\<close>

text \<open>
  C1, as the code has it. \<open>handleSyncRequest\<close> first requires \<open>scripts.deploy\<close> whatever
  the mode: if it is empty the sync ends with state \<open>error\<close> and the message
  \<open>Error executing deploy script: deploy script is missing\<close>. Otherwise, if the request is
  finalizing and \<open>scripts.destroy\<close> is empty, it ends with state \<open>error\<close> and a message
  that contains \<open>destroy script is missing\<close>. In both cases the only effect is the status
  write: no backend, build or run event. Otherwise the script chosen is \<open>scripts.destroy\<close>
  when finalizing and \<open>scripts.deploy\<close> when not, it is not empty, and every run-pod
  attempt of the call runs it.
\<close>

theorem handleSyncRequest_script_selection:
  assumes "handleSyncRequest X request s = (st, l, s')"
  shows "if Deploy (Scripts (Spec (Parent request))) = [] then
           st = \<lparr>state = ''error'',
                 message = ''Error executing deploy script: deploy script is missing''\<rparr>
           \<and> sublist ''deploy script is missing'' (message st)
           \<and> s' = updateStatus X request st s
           \<and> trace s' = trace s @ [EvUpdateStatus (Namespace (Metadata (Parent request)))
                                      (Name (Metadata (Parent request))) st]
         else if Finalizing request \<and> Destroy (Scripts (Spec (Parent request))) = [] then
           st = \<lparr>state = ''error'',
                 message = ''Error executing destroy script: destroy script is missing''\<rparr>
           \<and> sublist ''destroy script is missing'' (message st)
           \<and> s' = updateStatus X request st s
           \<and> trace s' = trace s @ [EvUpdateStatus (Namespace (Metadata (Parent request)))
                                      (Name (Metadata (Parent request))) st]
         else
           scriptContent l = (if Finalizing request then Destroy (Scripts (Spec (Parent request)))
                              else Deploy (Scripts (Spec (Parent request))))
           \<and> scriptContent l \<noteq> []
           \<and> (\<exists>es. trace s' = trace s @ es
                  \<and> list_all (\<lambda>e. is_run_event e \<longrightarrow> runs_script (scriptContent l) e) es)"
  using assms
proof (cases rule: handleSyncRequest_cases)
  case no_deploy
  have "sublist ''deploy script is missing'' (message st)"
    unfolding no_deploy(2) by (rule sublist_errorResponse)
  with no_deploy show ?thesis
    by (simp add: errorResponse_def)
next
  case no_destroy
  have "sublist ''destroy script is missing'' (message st)"
    unfolding no_destroy(4) by (rule sublist_errorResponse)
  with no_destroy show ?thesis
    by (simp add: errorResponse_def)
next
  case stages
  from stages_shape[OF stages(3)] obtain bs cs rs where
    l: "l = \<lparr>observed = request,
          scriptContent = (if Finalizing request then Destroy (Scripts (Spec (Parent request)))
                           else Deploy (Scripts (Spec (Parent request))))\<rparr>"
    and tr: "trace s' = trace s @ bs @ cs @ rs
              @ [EvUpdateStatus (Namespace (Metadata (Parent request)))
                   (Name (Metadata (Parent request))) st]"
    and ev: "list_all is_backend_event bs" "list_all is_build_event cs"
        "list_all (\<lambda>e. is_run_event e \<and> runs_script (scriptContent l) e) rs"
    by auto
  let ?es = "bs @ cs @ rs @ [EvUpdateStatus (Namespace (Metadata (Parent request)))
                   (Name (Metadata (Parent request))) st]"
  have "list_all (\<lambda>e. is_run_event e \<longrightarrow> runs_script (scriptContent l) e) bs"
    using ev(1) by (induction bs) (auto elim: is_backend_event.elims)
  moreover have "list_all (\<lambda>e. is_run_event e \<longrightarrow> runs_script (scriptContent l) e) cs"
    using ev(2) by (induction cs) (auto elim: is_build_event.elims)
  moreover have "list_all (\<lambda>e. is_run_event e \<longrightarrow> runs_script (scriptContent l) e) rs"
    using ev(3) by (induction rs) auto
  ultimately have "list_all (\<lambda>e. is_run_event e \<longrightarrow> runs_script (scriptContent l) e) ?es"
    by simp
  with tr have "\<exists>es. trace s' = trace s @ es
                  \<and> list_all (\<lambda>e. is_run_event e \<longrightarrow> runs_script (scriptContent l) e) es"
    by blast
  with stages(1,2) l show ?thesis by auto
qed

text \<open>
  A finalizing request with a deploy script and no destroy script ends with the destroy
  message and one status write; with both scripts the destroy script is chosen when
  finalizing and the deploy script when not.
\<close>

theorem handleSyncRequest_script_selection_witness:
  "handleSyncRequest (demo_externals 0) (demo_request True ''deploy.sh'' [] None) demo_sys =
     (\<lparr>state = ''error'', message = ''Error executing destroy script: destroy script is missing''\<rparr>,
      \<lparr>observed = demo_request True ''deploy.sh'' [] None, scriptContent = []\<rparr>,
      \<lparr>world = 0, trace = [EvUpdateStatus ''default'' ''tf''
         \<lparr>state = ''error'', message = ''Error executing destroy script: destroy script is missing''\<rparr>]\<rparr>)
   \<and> scriptContent (fst (snd (handleSyncRequest (demo_externals 0)
         (demo_request True ''deploy.sh'' ''destroy.sh'' None) demo_sys))) = ''destroy.sh''
   \<and> scriptContent (fst (snd (handleSyncRequest (demo_externals 0)
         (demo_request False ''deploy.sh'' ''destroy.sh'' None) demo_sys))) = ''deploy.sh''"
proof -
  obtain st l s' where h: "handleSyncRequest (demo_externals 0)
         (demo_request True ''deploy.sh'' ''destroy.sh'' None) demo_sys = (st, l, s')"
    by (metis prod.exhaust)
  have "scriptContent l = ''destroy.sh''"
    using handleSyncRequest_script_selection[OF h] by (simp add: demo_request_def)
  moreover have "handleSyncRequest (demo_externals 0) (demo_request True ''deploy.sh'' [] None) demo_sys =
     (\<lparr>state = ''error'', message = ''Error executing destroy script: destroy script is missing''\<rparr>,
      \<lparr>observed = demo_request True ''deploy.sh'' [] None, scriptContent = []\<rparr>,
      \<lparr>world = 0, trace = [EvUpdateStatus ''default'' ''tf''
         \<lparr>state = ''error'', message = ''Error executing destroy script: destroy script is missing''\<rparr>]\<rparr>)"
    by (simp add: handleSyncRequest_def Let_def errorResponse_def updateStatus_def call_def
        demo_request_def demo_externals_def demo_sys_def)
  moreover have "scriptContent (fst (snd (handleSyncRequest (demo_externals 0)
         (demo_request False ''deploy.sh'' ''destroy.sh'' None) demo_sys))) = ''deploy.sh''"
    by code_simp
  ultimately show ?thesis using h by simp
qed

text \<open>
  C1 as the specification words it fails on a finalizing request whose scripts are both
  empty: the destroy script, which the mode selects, is empty, and the message names the
  deploy script. A finalizing request with a destroy script and no deploy script ends
  with the same error.
\<close>

theorem handleSyncRequest_destroy_message_counterexample:
  "Finalizing (demo_request True [] [] None)
   \<and> Destroy (Scripts (Spec (Parent (demo_request True [] [] None)))) = []
   \<and> \<not> sublist ''destroy script is missing''
         (message (fst (handleSyncRequest (demo_externals 0) (demo_request True [] [] None) demo_sys)))
   \<and> fst (handleSyncRequest (demo_externals 0) (demo_request True [] ''destroy.sh'' None) demo_sys) =
       \<lparr>state = ''error'', message = ''Error executing deploy script: deploy script is missing''\<rparr>"
proof -
  have "\<not> sublist ''destroy script is missing''
         (message (fst (handleSyncRequest (demo_externals 0) (demo_request True [] [] None) demo_sys)))"
    by code_simp
  moreover have "fst (handleSyncRequest (demo_externals 0) (demo_request True [] ''destroy.sh'' None) demo_sys) =
       \<lparr>state = ''error'', message = ''Error executing deploy script: deploy script is missing''\<rparr>"
    by code_simp
  ultimately show ?thesis by (simp add: demo_request_def)
qed

text \<open>
  C2, as the code has it. \<open>runTerraform\<close> makes at most 10 run-pod attempts and stops at
  the first that succeeds; every failed attempt, the tenth too, is followed by a sleep of
  one minute. The events it adds are the failed attempts \<open>errs\<close>, each with its sleep, and
  then the successful attempt if there is one. If an attempt succeeds, fewer than 10 have
  failed before it and the status is state \<open>Success\<close> with the message
  \<open>Terraform applied successfully\<close>; if none does, exactly 10 have failed and the status is
  state \<open>Failed\<close> with the error text of the last of them.
\<close>

theorem runTerraform_retry:
  "\<exists>errs ok.
     trace (snd (runTerraform X request script taggedImageName secretName envVars s)) = trace s
        @ concat (map (\<lambda>e. [EvCreateRunPod (Name (Metadata (Parent request)))
                               (Namespace (Metadata (Parent request))) envVars script taggedImageName secretName (Some e),
                             EvSleep (1 * Minute)]) errs)
        @ (if ok then [EvCreateRunPod (Name (Metadata (Parent request)))
                               (Namespace (Metadata (Parent request))) envVars script taggedImageName secretName None]
           else [])
     \<and> (if ok
         then length errs < 10
              \<and> fst (runTerraform X request script taggedImageName secretName envVars s) =
                  \<lparr>state = ''Success'', message = ''Terraform applied successfully''\<rparr>
         else length errs = 10
              \<and> fst (runTerraform X request script taggedImageName secretName envVars s) =
                  \<lparr>state = ''Failed'', message = last errs\<rparr>)"
proof -
  obtain st s' where h: "runTerraform X request script taggedImageName secretName envVars s = (st, s')"
    by (metis prod.exhaust)
  from runTerraform_shape[OF h] show ?thesis unfolding h fst_conv snd_conv .
qed

text \<open>
  The retry loop on the concrete world: nine failures and a success on the tenth attempt
  give \<open>Success\<close> after ten attempts; ten failures give \<open>Failed\<close> with the tenth error; no
  eleventh attempt is made.
\<close>

theorem runTerraform_retry_witness:
  "fst (runTerraform (demo_externals 9) (demo_request False ''deploy.sh'' ''destroy.sh'' None)
          ''deploy.sh'' ''image'' ''secret'' None demo_sys) =
     \<lparr>state = ''Success'', message = ''Terraform applied successfully''\<rparr>
   \<and> world (snd (runTerraform (demo_externals 9) (demo_request False ''deploy.sh'' ''destroy.sh'' None)
          ''deploy.sh'' ''image'' ''secret'' None demo_sys)) = 10
   \<and> fst (runTerraform (demo_externals 10) (demo_request False ''deploy.sh'' ''destroy.sh'' None)
          ''deploy.sh'' ''image'' ''secret'' None demo_sys) =
     \<lparr>state = ''Failed'', message = ''attempt ||||||||||''\<rparr>
   \<and> world (snd (runTerraform (demo_externals 11) (demo_request False ''deploy.sh'' ''destroy.sh'' None)
          ''deploy.sh'' ''image'' ''secret'' None demo_sys)) = 10"
proof -
  have "fst (runTerraform (demo_externals 9) (demo_request False ''deploy.sh'' ''destroy.sh'' None)
          ''deploy.sh'' ''image'' ''secret'' None demo_sys) =
     \<lparr>state = ''Success'', message = ''Terraform applied successfully''\<rparr>"
    by code_simp
  moreover have "world (snd (runTerraform (demo_externals 9) (demo_request False ''deploy.sh'' ''destroy.sh'' None)
          ''deploy.sh'' ''image'' ''secret'' None demo_sys)) = 10"
    by code_simp
  moreover have "fst (runTerraform (demo_externals 10) (demo_request False ''deploy.sh'' ''destroy.sh'' None)
          ''deploy.sh'' ''image'' ''secret'' None demo_sys) =
     \<lparr>state = ''Failed'', message = ''attempt ||||||||||''\<rparr>"
    by code_simp
  moreover have "world (snd (runTerraform (demo_externals 11) (demo_request False ''deploy.sh'' ''destroy.sh'' None)
          ''deploy.sh'' ''image'' ''secret'' None demo_sys)) = 10"
    by code_simp
  ultimately show ?thesis
    using runTerraform_retry[of "demo_externals 10" "demo_request False ''deploy.sh'' ''destroy.sh'' None"
        "''deploy.sh''" "''image''" "''secret''" None demo_sys]
    by simp
qed

text \<open>
  C2 as the specification words it gives the success message as \<open>applied successfully\<close>;
  the code's message is \<open>Terraform applied successfully\<close>.
\<close>

theorem runTerraform_success_message_counterexample:
  "fst (runTerraform (demo_externals 0) (demo_request False ''deploy.sh'' ''destroy.sh'' None)
          ''deploy.sh'' ''image'' ''secret'' None demo_sys)
     \<noteq> \<lparr>state = ''Success'', message = ''applied successfully''\<rparr>"
  by code_simp



text \<open>
  C5. If the backend map has a non-empty \<open>provider\<close> entry that the registry does not
  resolve (\<open>GetProvider\<close> returns an error), the sync ends with state \<open>error\<close>, and the
  events of the call hold no build event (ConfigMap, secret, build pod) and no run event.
  When the script checks pass, the events are the provider lookup and the status write,
  and the message carries the registry's error.
\<close>

theorem unknown_provider_is_terminal:
  assumes "Backend (Spec (Parent request)) = Some b"
    and "map_of b ''provider'' = Some p" and "p \<noteq> []"
    and "GetProvider X p = Inl e"
    and "handleSyncRequest X request s = (st, l, s')"
  shows "state st = ''error''
     \<and> (\<exists>es. trace s' = trace s @ es
            \<and> list_all (\<lambda>ev. \<not> is_build_event ev \<and> \<not> is_run_event ev) es)
     \<and> (if Deploy (Scripts (Spec (Parent request))) = []
           \<or> Finalizing request \<and> Destroy (Scripts (Spec (Parent request))) = []
         then trace s' = trace s @ [EvUpdateStatus (Namespace (Metadata (Parent request)))
                                      (Name (Metadata (Parent request))) st]
         else message st = ''Error setting up backend: error getting provider: '' @ e
            \<and> trace s' = trace s @ [EvGetProvider p,
                                    EvUpdateStatus (Namespace (Metadata (Parent request)))
                                      (Name (Metadata (Parent request))) st])"
  using assms(5)
proof (cases rule: handleSyncRequest_cases)
  case no_deploy
  then show ?thesis
    by (auto simp: errorResponse_def intro!: exI[of _ "[EvUpdateStatus (Namespace (Metadata (Parent request)))
                                      (Name (Metadata (Parent request))) st]"])
next
  case no_destroy
  then show ?thesis
    by (auto simp: errorResponse_def intro!: exI[of _ "[EvUpdateStatus (Namespace (Metadata (Parent request)))
                                      (Name (Metadata (Parent request))) st]"])
next
  case stages
  let ?s1 = "\<lparr>world = world s, trace = trace s @ [EvGetProvider p]\<rparr>"
  from setupBackend_unknown_provider[OF assms(1-4)]
  have sb: "setupBackend X (Backend (Spec (Parent request))) s =
           (([], False, Some (''error getting provider: '' @ e)), ?s1)"
    by simp
  from stages(3) sb
  have st: "st = errorResponse ''setting up backend'' (''error getting provider: '' @ e)"
    and s': "s' = updateStatus X request st ?s1"
    by (auto simp: handleSyncRequest_stages_def Let_def)
  from s' have tr: "trace s' = trace s @ [EvGetProvider p,
                                    EvUpdateStatus (Namespace (Metadata (Parent request)))
                                      (Name (Metadata (Parent request))) st]"
    by simp
  have "\<exists>es. trace s' = trace s @ es
            \<and> list_all (\<lambda>ev. \<not> is_build_event ev \<and> \<not> is_run_event ev) es"
    using tr by (intro exI[of _ "[EvGetProvider p,
                                    EvUpdateStatus (Namespace (Metadata (Parent request)))
                                      (Name (Metadata (Parent request))) st]"]) simp
  with st tr stages(1,2) show ?thesis
    by (auto simp: errorResponse_def)
qed

text \<open>
  The backend \<open>{"provider": "doesnotexist", "region": "us-east-1"}\<close> on the concrete world.
\<close>

theorem unknown_provider_is_terminal_witness:
  "Backend (Spec (Parent (demo_request False ''deploy.sh'' ''destroy.sh''
       (Some [(''provider'', ''doesnotexist''), (''region'', ''us-east-1'')])))) =
     Some [(''provider'', ''doesnotexist''), (''region'', ''us-east-1'')]
   \<and> map_of [(''provider'', ''doesnotexist''), (''region'', ''us-east-1'')] ''provider'' = Some ''doesnotexist''
   \<and> GetProvider (demo_externals 0) ''doesnotexist'' = Inl ''unknown provider: doesnotexist''
   \<and> handleSyncRequest (demo_externals 0) (demo_request False ''deploy.sh'' ''destroy.sh''
       (Some [(''provider'', ''doesnotexist''), (''region'', ''us-east-1'')])) demo_sys =
      (\<lparr>state = ''error'',
        message = ''Error setting up backend: error getting provider: unknown provider: doesnotexist''\<rparr>,
       \<lparr>observed = demo_request False ''deploy.sh'' ''destroy.sh''
           (Some [(''provider'', ''doesnotexist''), (''region'', ''us-east-1'')]),
        scriptContent = ''deploy.sh''\<rparr>,
       \<lparr>world = 0,
        trace = [EvGetProvider ''doesnotexist'',
                 EvUpdateStatus ''default'' ''tf''
                   \<lparr>state = ''error'',
                    message = ''Error setting up backend: error getting provider: unknown provider: doesnotexist''\<rparr>]\<rparr>)"
proof -
  let ?b = "[(''provider'', ''doesnotexist''), (''region'', ''us-east-1'')]"
  let ?r = "demo_request False ''deploy.sh'' ''destroy.sh'' (Some ?b)"
  have b: "Backend (Spec (Parent ?r)) = Some ?b"
    by (simp add: demo_request_def)
  have p: "map_of ?b ''provider'' = Some ''doesnotexist''" by simp
  have ne: "''doesnotexist'' \<noteq> []" by simp
  have g: "GetProvider (demo_externals 0) ''doesnotexist'' = Inl ''unknown provider: doesnotexist''"
    by (simp add: demo_externals_def)
  have ev: "handleSyncRequest (demo_externals 0) ?r demo_sys =
      (\<lparr>state = ''error'',
        message = ''Error setting up backend: error getting provider: unknown provider: doesnotexist''\<rparr>,
       \<lparr>observed = ?r, scriptContent = ''deploy.sh''\<rparr>,
       \<lparr>world = 0,
        trace = [EvGetProvider ''doesnotexist'',
                 EvUpdateStatus ''default'' ''tf''
                   \<lparr>state = ''error'',
                    message = ''Error setting up backend: error getting provider: unknown provider: doesnotexist''\<rparr>]\<rparr>)"
    by (simp add: handleSyncRequest_def handleSyncRequest_stages_def setupBackend_def Let_def
        errorResponse_def demo_request_def demo_externals_def demo_sys_def call_def updateStatus_def)
  from unknown_provider_is_terminal[OF b p ne g ev]
  have "state \<lparr>state = ''error'',
        message = ''Error setting up backend: error getting provider: unknown provider: doesnotexist''\<rparr> = ''error''"
    by simp
  with ev b p g show ?thesis by simp
qed

text \<open>
  C6. For a backend map that is nil, empty, or without a non-empty \<open>provider\<close> entry,
  \<open>setupBackend\<close> returns the empty additions, \<open>providerExists = false\<close> and no error, and
  leaves the system as it was: no lookup and no setup event, no change of the world. A
  sync whose script checks pass then goes on: its first event is the creation of the
  Dockerfile ConfigMap, with empty additions and \<open>providerExists = false\<close>.
\<close>

theorem setupBackend_without_provider:
  assumes "no_provider backend"
  shows "setupBackend X backend s = (([], False, None), s)
     \<and> (\<forall>request::SyncRequest. Backend (Spec (Parent request)) = backend
            \<and> Deploy (Scripts (Spec (Parent request))) \<noteq> []
            \<and> (Finalizing request \<longrightarrow> Destroy (Scripts (Spec (Parent request))) \<noteq> [])
          \<longrightarrow> (\<exists>es. trace (snd (snd (handleSyncRequest X request s))) =
                 trace s @ EvCreateDockerfileConfigMap (Name (Metadata (Parent request)))
                             (Namespace (Metadata (Parent request))) [] False # es))"
proof (intro conjI allI impI)
  show sb: "setupBackend X backend s = (([], False, None), s)"
    using assms by (rule setupBackend_no_provider)
  fix request :: SyncRequest
  assume a: "Backend (Spec (Parent request)) = backend
            \<and> Deploy (Scripts (Spec (Parent request))) \<noteq> []
            \<and> (Finalizing request \<longrightarrow> Destroy (Scripts (Spec (Parent request))) \<noteq> [])"
  let ?n = "Name (Metadata (Parent request))" and ?ns = "Namespace (Metadata (Parent request))"
  obtain st l s' where h: "handleSyncRequest X request s = (st, l, s')"
    by (metis prod.exhaust)
  from h have "\<exists>es. trace s' = trace s @ EvCreateDockerfileConfigMap ?n ?ns [] False # es"
  proof (cases rule: handleSyncRequest_cases)
    case stages
    from stages_shape_full[OF stages(3)] obtain bs cs rs where
      tr: "trace s' = trace s @ bs @ cs @ rs @ [EvUpdateStatus ?ns ?n st]"
      and first: "\<forall>adds pe s1. setupBackend X (Backend (Spec (Parent request))) s = ((adds, pe, None), s1)
                \<longrightarrow> trace s1 = trace s @ bs
                    \<and> (\<exists>cs'. cs = EvCreateDockerfileConfigMap ?n ?ns adds pe # cs')"
      by auto
    from sb a first obtain cs' where "trace s = trace s @ bs"
      and cs: "cs = EvCreateDockerfileConfigMap ?n ?ns [] False # cs'"
      by blast
    then have "bs = []" by simp
    with tr cs show ?thesis by simp
  qed (use a in auto)
  then show "\<exists>es. trace (snd (snd (handleSyncRequest X request s))) =
                 trace s @ EvCreateDockerfileConfigMap ?n ?ns [] False # es"
    using h by simp
qed

text \<open>
  The backends nil, \<open>{}\<close>, \<open>{"foo": "bar"}\<close> and \<open>{"provider": ""}\<close>.
\<close>

theorem setupBackend_without_provider_witness:
  "no_provider None \<and> no_provider (Some []) \<and> no_provider (Some [(''foo'', ''bar'')])
   \<and> no_provider (Some [(''provider'', [])])
   \<and> setupBackend (demo_externals 0) (Some [(''foo'', ''bar'')]) demo_sys = (([], False, None), demo_sys)
   \<and> hd (trace (snd (snd (handleSyncRequest (demo_externals 0)
         (demo_request False ''deploy.sh'' ''destroy.sh'' (Some [(''foo'', ''bar'')])) demo_sys)))) =
       EvCreateDockerfileConfigMap ''tf'' ''default'' [] False"
proof -
  let ?r = "demo_request False ''deploy.sh'' ''destroy.sh'' (Some [(''foo'', ''bar'')])"
  have np: "no_provider (Some [(''foo'', ''bar'')])"
    by (simp add: no_provider_def)
  have others: "no_provider None" "no_provider (Some [])" "no_provider (Some [(''provider'', [])])"
    by (simp_all add: no_provider_def)
  note inst = setupBackend_without_provider[OF np, of "demo_externals 0" demo_sys]
  from inst have sb: "setupBackend (demo_externals 0) (Some [(''foo'', ''bar'')]) demo_sys = (([], False, None), demo_sys)"
    by (rule conjunct1)
  have pre: "Backend (Spec (Parent ?r)) = Some [(''foo'', ''bar'')]
            \<and> Deploy (Scripts (Spec (Parent ?r))) \<noteq> []
            \<and> (Finalizing ?r \<longrightarrow> Destroy (Scripts (Spec (Parent ?r))) \<noteq> [])"
    by (simp add: demo_request_def)
  from inst[THEN conjunct2, rule_format, OF pre]
  obtain es where "trace (snd (snd (handleSyncRequest (demo_externals 0) ?r demo_sys))) =
      trace demo_sys @ EvCreateDockerfileConfigMap (Name (Metadata (Parent ?r)))
                             (Namespace (Metadata (Parent ?r))) [] False # es"
    by (elim exE)
  then have "hd (trace (snd (snd (handleSyncRequest (demo_externals 0) ?r demo_sys)))) =
       EvCreateDockerfileConfigMap ''tf'' ''default'' [] False"
    by (simp add: demo_sys_def demo_request_def)
  with np others sb show ?thesis by simp
qed

text \<open>
  C7, as the code has it. The status \<open>handleSyncRequest\<close> returns is fixed by the first
  stage of the run that fails: a missing script gives state \<open>error\<close> and the message of
  that check; a failure of the backend setup, of the ConfigMap creation, of the secret
  creation or of the build, each called in the world the stages before it left, gives
  state \<open>error\<close> and the message \<open>Error\<close>, a space, the action, a colon, a space, and
  the error text that very call returned, unchanged; only when none of them fails is the
  state \<open>Success\<close> or \<open>Failed\<close>. The error of the backend setup is itself the text the
  registry or the provider returned, after the words \<open>error getting provider:\<close> or
  \<open>error setting up P backend:\<close>. The message begins with a capital \<open>E\<close>.
\<close>

theorem error_status_shape:
  assumes "handleSyncRequest X request s = (st, l, s')"
  shows "(if Deploy (Scripts (Spec (Parent request))) = [] then
            st = \<lparr>state = ''error'',
                  message = ''Error executing deploy script: deploy script is missing''\<rparr>
          else if Finalizing request \<and> Destroy (Scripts (Spec (Parent request))) = [] then
            st = \<lparr>state = ''error'',
                  message = ''Error executing destroy script: destroy script is missing''\<rparr>
          else
            (case setupBackend X (Backend (Spec (Parent request))) s of
               ((adds, pe, Some cause), s1) \<Rightarrow>
                 st = \<lparr>state = ''error'', message = ''Error setting up backend: '' @ cause\<rparr>
             | ((adds, pe, None), s1) \<Rightarrow>
                (case CreateDockerfileConfigMap X (Name (Metadata (Parent request)))
                        (Namespace (Metadata (Parent request))) adds pe (world s1) of
                   (Inl cause, w2) \<Rightarrow>
                     st = \<lparr>state = ''error'',
                           message = ''Error creating Dockerfile ConfigMap: '' @ cause\<rparr>
                 | (Inr configMapName, w2) \<Rightarrow>
                    (case CreateDockerConfigSecret X (Name (Metadata (Parent request)) @ ''-container-secret'')
                            (Namespace (Metadata (Parent request)))
                            (Getenv X ''CONTAINER_REGISTRY_SECRET'') w2 of
                       (Some cause, w3) \<Rightarrow>
                         st = \<lparr>state = ''error'',
                               message = ''Error creating Docker config secret: '' @ cause\<rparr>
                     | (None, w3) \<Rightarrow>
                        (case container_CreateBuildPod X (Name (Metadata (Parent request)))
                                (Namespace (Metadata (Parent request))) configMapName
                                (ImageName (ContainerRegistry (Spec (Parent request))))
                                (Name (Metadata (Parent request)) @ ''-container-secret'')
                                (Join X ''/tmp'' (Name (Metadata (Parent request))))
                                (URL (GitRepo (Spec (Parent request))))
                                (Branch (GitRepo (Spec (Parent request))))
                                (Getenv X ''GIT_SSH_SECRET'') w3 of
                           (Inl cause, w4) \<Rightarrow>
                             st = \<lparr>state = ''error'',
                                   message = ''Error creating build job: '' @ cause\<rparr>
                         | (Inr built, w4) \<Rightarrow>
                             state st = ''Success'' \<or> state st = ''Failed'')))))
     \<and> (\<forall>b p. Backend (Spec (Parent request)) = Some b \<and> map_of b ''provider'' = Some p \<and> p \<noteq> [] \<longrightarrow>
           (case GetProvider X p of
              Inl cause \<Rightarrow>
                fst (setupBackend X (Some b) s) =
                  ([], False, Some (''error getting provider: '' @ cause))
            | Inr provider \<Rightarrow>
                (case SetupBackend provider (Some b) (world s) of
                   (Some cause, w1) \<Rightarrow>
                     fst (setupBackend X (Some b) s) =
                       ([], False, Some (''error setting up '' @ p @ '' backend: '' @ cause))
                 | (None, w1) \<Rightarrow>
                     fst (setupBackend X (Some b) s) =
                       (fst (GetDockerfileAdditions provider w1), True, None))))"
proof (rule conjI)
  show "\<forall>b p. Backend (Spec (Parent request)) = Some b \<and> map_of b ''provider'' = Some p \<and> p \<noteq> [] \<longrightarrow>
           (case GetProvider X p of
              Inl cause \<Rightarrow>
                fst (setupBackend X (Some b) s) =
                  ([], False, Some (''error getting provider: '' @ cause))
            | Inr provider \<Rightarrow>
                (case SetupBackend provider (Some b) (world s) of
                   (Some cause, w1) \<Rightarrow>
                     fst (setupBackend X (Some b) s) =
                       ([], False, Some (''error setting up '' @ p @ '' backend: '' @ cause))
                 | (None, w1) \<Rightarrow>
                     fst (setupBackend X (Some b) s) =
                       (fst (GetDockerfileAdditions provider w1), True, None)))"
    using setupBackend_provider_outcome by blast
next
  from assms show "if Deploy (Scripts (Spec (Parent request))) = [] then
            st = \<lparr>state = ''error'',
                  message = ''Error executing deploy script: deploy script is missing''\<rparr>
          else if Finalizing request \<and> Destroy (Scripts (Spec (Parent request))) = [] then
            st = \<lparr>state = ''error'',
                  message = ''Error executing destroy script: destroy script is missing''\<rparr>
          else
            (case setupBackend X (Backend (Spec (Parent request))) s of
               ((adds, pe, Some cause), s1) \<Rightarrow>
                 st = \<lparr>state = ''error'', message = ''Error setting up backend: '' @ cause\<rparr>
             | ((adds, pe, None), s1) \<Rightarrow>
                (case CreateDockerfileConfigMap X (Name (Metadata (Parent request)))
                        (Namespace (Metadata (Parent request))) adds pe (world s1) of
                   (Inl cause, w2) \<Rightarrow>
                     st = \<lparr>state = ''error'',
                           message = ''Error creating Dockerfile ConfigMap: '' @ cause\<rparr>
                 | (Inr configMapName, w2) \<Rightarrow>
                    (case CreateDockerConfigSecret X (Name (Metadata (Parent request)) @ ''-container-secret'')
                            (Namespace (Metadata (Parent request)))
                            (Getenv X ''CONTAINER_REGISTRY_SECRET'') w2 of
                       (Some cause, w3) \<Rightarrow>
                         st = \<lparr>state = ''error'',
                               message = ''Error creating Docker config secret: '' @ cause\<rparr>
                     | (None, w3) \<Rightarrow>
                        (case container_CreateBuildPod X (Name (Metadata (Parent request)))
                                (Namespace (Metadata (Parent request))) configMapName
                                (ImageName (ContainerRegistry (Spec (Parent request))))
                                (Name (Metadata (Parent request)) @ ''-container-secret'')
                                (Join X ''/tmp'' (Name (Metadata (Parent request))))
                                (URL (GitRepo (Spec (Parent request))))
                                (Branch (GitRepo (Spec (Parent request))))
                                (Getenv X ''GIT_SSH_SECRET'') w3 of
                           (Inl cause, w4) \<Rightarrow>
                             st = \<lparr>state = ''error'',
                                   message = ''Error creating build job: '' @ cause\<rparr>
                         | (Inr built, w4) \<Rightarrow>
                             state st = ''Success'' \<or> state st = ''Failed''))))"
  proof (cases rule: handleSyncRequest_cases)
    case no_deploy
    then show ?thesis by (simp add: errorResponse_def)
  next
    case no_destroy
    then show ?thesis by (simp add: errorResponse_def)
  next
    case stages
    from stages(2) have nd: "\<not> (Finalizing request \<and> Destroy (Scripts (Spec (Parent request))) = [])"
      by blast
    from stages_outcome[OF stages(3), unfolded locals.select_convs] stages(1) nd show ?thesis
      by (simp only: if_False)
  qed
qed

text \<open>
  An unknown provider, and a ConfigMap creation that is refused: each status carries the
  error of the call that failed.
\<close>

theorem error_status_shape_witness:
  "handleSyncRequest (demo_externals 0) (demo_request False ''deploy.sh'' ''destroy.sh''
       (Some [(''provider'', ''doesnotexist'')])) demo_sys =
     (\<lparr>state = ''error'',
       message = ''Error setting up backend: error getting provider: unknown provider: doesnotexist''\<rparr>,
      \<lparr>observed = demo_request False ''deploy.sh'' ''destroy.sh'' (Some [(''provider'', ''doesnotexist'')]),
       scriptContent = ''deploy.sh''\<rparr>,
      \<lparr>world = 0,
       trace = [EvGetProvider ''doesnotexist'',
                EvUpdateStatus ''default'' ''tf''
                  \<lparr>state = ''error'',
                   message = ''Error setting up backend: error getting provider: unknown provider: doesnotexist''\<rparr>]\<rparr>)
   \<and> fst (handleSyncRequest demo_failing_externals
          (demo_request False ''deploy.sh'' ''destroy.sh'' None) demo_sys) =
       \<lparr>state = ''error'', message = ''Error creating Dockerfile ConfigMap: configmaps is forbidden''\<rparr>"
proof -
  let ?r = "demo_request False ''deploy.sh'' ''destroy.sh'' (Some [(''provider'', ''doesnotexist'')])"
  let ?st = "\<lparr>state = ''error'',
       message = ''Error setting up backend: error getting provider: unknown provider: doesnotexist''\<rparr>"
  have ev: "handleSyncRequest (demo_externals 0) ?r demo_sys =
     (?st, \<lparr>observed = ?r, scriptContent = ''deploy.sh''\<rparr>,
      \<lparr>world = 0, trace = [EvGetProvider ''doesnotexist'', EvUpdateStatus ''default'' ''tf'' ?st]\<rparr>)"
    by (simp add: handleSyncRequest_def handleSyncRequest_stages_def setupBackend_def Let_def
        errorResponse_def demo_request_def demo_externals_def demo_sys_def call_def updateStatus_def)
  let ?q = "demo_request False ''deploy.sh'' ''destroy.sh'' None"
  obtain st l s' where h: "handleSyncRequest demo_failing_externals ?q demo_sys = (st, l, s')"
    by (metis prod.exhaust)
  have sb: "setupBackend demo_failing_externals (Backend (Spec (Parent ?q))) demo_sys
              = (([], False, None), demo_sys)"
    by (simp add: setupBackend_def demo_request_def)
  have cm: "CreateDockerfileConfigMap demo_failing_externals (Name (Metadata (Parent ?q)))
              (Namespace (Metadata (Parent ?q))) [] False (world demo_sys)
              = (Inl ''configmaps is forbidden'', 0)"
    by (simp add: demo_failing_externals_def demo_sys_def)
  have sc: "Deploy (Scripts (Spec (Parent ?q))) \<noteq> []" "\<not> Finalizing ?q"
    by (simp_all add: demo_request_def)
  from error_status_shape[OF h, THEN conjunct1] sb cm sc
  have "st = \<lparr>state = ''error'', message = ''Error creating Dockerfile ConfigMap: configmaps is forbidden''\<rparr>"
    by simp
  with h ev show ?thesis by simp
qed

text \<open>
  C7 as the specification words it has the message begin with \<open>error\<close> in lower case.
\<close>

theorem error_status_prefix_counterexample:
  "state (fst (handleSyncRequest (demo_externals 0) (demo_request False ''deploy.sh'' ''destroy.sh''
       (Some [(''provider'', ''doesnotexist'')])) demo_sys)) = ''error''
   \<and> \<not> prefix ''error ''
       (message (fst (handleSyncRequest (demo_externals 0) (demo_request False ''deploy.sh'' ''destroy.sh''
          (Some [(''provider'', ''doesnotexist'')])) demo_sys)))
   \<and> message (fst (handleSyncRequest (demo_externals 0) (demo_request False ''deploy.sh'' ''destroy.sh''
          (Some [(''provider'', ''doesnotexist'')])) demo_sys)) \<noteq>
       ''error setting up backend: error getting provider: unknown provider: doesnotexist''"
  by code_simp

text \<open>
  C9. At every return of \<open>handleSyncRequest\<close> its parameter \<open>observed\<close> is the request it
  was called with: no statement of the function assigns to it or to a field of it. The
  chosen script lives in the local \<open>scriptContent\<close>, which alone is assigned. (The
  functions called receive copies of the request; the maps inside are passed on to code
  that is not part of the model.)
\<close>

theorem handleSyncRequest_request_unchanged:
  "observed (fst (snd (handleSyncRequest X request s))) = request
   \<and> scriptContent (fst (snd (handleSyncRequest X request s))) =
       (if Deploy (Scripts (Spec (Parent request))) \<noteq> [] \<and> Finalizing request
        then Destroy (Scripts (Spec (Parent request)))
        else Deploy (Scripts (Spec (Parent request))))"
proof -
  obtain st l s' where h: "handleSyncRequest X request s = (st, l, s')"
    by (metis prod.exhaust)
  from h have "observed l = request"
    by (simp add: handleSyncRequest_shape)
  moreover from h have "scriptContent l =
       (if Deploy (Scripts (Spec (Parent request))) \<noteq> [] \<and> Finalizing request
        then Destroy (Scripts (Spec (Parent request)))
        else Deploy (Scripts (Spec (Parent request))))"
  proof (cases rule: handleSyncRequest_cases)
    case stages
    from stages_shape[OF stages(3)] stages(1) show ?thesis by auto
  qed auto
  ultimately show ?thesis using h by simp
qed

section \<open>Properties of the build pod\<close>

text \<open>
  C4, as the code has it. \<open>CreateBuildPod\<close> for the resource name \<open>N\<close> addresses no pod
  but the one named \<open>N-docker-build-pod\<close> in the namespace given. The calls it makes and
  the error it returns are one of the six cases of \<open>build_protocol\<close>: after the volume
  claim, the lookup; if a pod was found (it is then the pod of that name in the store),
  the patch that strips its finalizers, made only when it has some, and the delete; then
  the create, right after the delete that was accepted or the lookup that was answered
  NotFound. The first call that fails, other than such a lookup, ends the function with
  its error and nothing is sent after it; a function call that returns no error has made
  the whole sequence. In the empty namespace the function returns an error. After a call
  that returns no error exactly one pod of that name is stored and it is live, and so it
  is after a second such call made right after the first. On a settled cluster the call
  and a second call right after it do return no error, so that exactly one live build
  pod of the name remains.
\<close>

theorem CreateBuildPod_ensures_fresh_pod:
  assumes "CreateBuildPod name ns configMapName imageName pvcName dockerSecretName repoDir c = (err, c')"
  shows "\<exists>entries. log c' = log c @ entries
     \<and> build_protocol ns pvcName (name @ ''-docker-build-pod'')
           (buildPodObject (name @ ''-docker-build-pod'') name configMapName imageName pvcName
              dockerSecretName repoDir) err entries
     \<and> (ns = [] \<longrightarrow> err \<noteq> None)
     \<and> (\<forall>x\<in>set entries. request_pod (fst x) = None
            \<or> request_pod (fst x) = Some (ns, name @ ''-docker-build-pod''))
     \<and> (\<forall>p. found_pod entries = Some p
            \<longrightarrow> find (is_pod ns (name @ ''-docker-build-pod'')) (Pods c) = Some p)
     \<and> prefix (map fst entries)
          (ReqEnsurePVC ns pvcName
           # ensure_fresh_requests ns (name @ ''-docker-build-pod'') (found_pod entries)
               (buildPodObject (name @ ''-docker-build-pod'') name configMapName imageName pvcName
                  dockerSecretName repoDir))
     \<and> (err = None \<longrightarrow>
           map fst entries =
             ReqEnsurePVC ns pvcName
             # ensure_fresh_requests ns (name @ ''-docker-build-pod'') (found_pod entries)
                 (buildPodObject (name @ ''-docker-build-pod'') name configMapName imageName pvcName
                    dockerSecretName repoDir)
           \<and> live_pods ns (name @ ''-docker-build-pod'') c' =
               [in_namespace ns (buildPodObject (name @ ''-docker-build-pod'') name configMapName
                  imageName pvcName dockerSecretName repoDir)])
     \<and> (\<forall>c''. err = None
            \<and> CreateBuildPod name ns configMapName imageName pvcName dockerSecretName repoDir c' = (None, c'')
          \<longrightarrow> live_pods ns (name @ ''-docker-build-pod'') c'' =
               [in_namespace ns (buildPodObject (name @ ''-docker-build-pod'') name configMapName
                  imageName pvcName dockerSecretName repoDir)]
            \<and> filter (is_pod ns (name @ ''-docker-build-pod'')) (Pods c'') =
               [in_namespace ns (buildPodObject (name @ ''-docker-build-pod'') name configMapName
                  imageName pvcName dockerSecretName repoDir)])
     \<and> (settled ns (name @ ''-docker-build-pod'') c \<longrightarrow>
           err = None
           \<and> (\<exists>c''. CreateBuildPod name ns configMapName imageName pvcName dockerSecretName repoDir c'
                        = (None, c'')
                  \<and> live_pods ns (name @ ''-docker-build-pod'') c'' =
                      [in_namespace ns (buildPodObject (name @ ''-docker-build-pod'') name configMapName
                         imageName pvcName dockerSecretName repoDir)]
                  \<and> filter (is_pod ns (name @ ''-docker-build-pod'')) (Pods c'') =
                      [in_namespace ns (buildPodObject (name @ ''-docker-build-pod'') name configMapName
                         imageName pvcName dockerSecretName repoDir)]))"
proof -
  let ?pn = "name @ ''-docker-build-pod''"
  let ?pod = "buildPodObject ?pn name configMapName imageName pvcName dockerSecretName repoDir"
  from CreateBuildPod_protocol[OF assms] obtain entries where
    lg: "log c' = log c @ entries" and bp: "build_protocol ns pvcName ?pn ?pod err entries"
    and fnd: "\<forall>p. found_pod entries = Some p \<longrightarrow> find (is_pod ns ?pn) (Pods c) = Some p"
    by blast
  have a: "\<forall>x\<in>set entries. request_pod (fst x) = None \<or> request_pod (fst x) = Some (ns, ?pn)"
    by (rule build_protocol_targets[OF bp]) simp
  note b = build_protocol_prefix[OF bp]
  have c: "err = None \<longrightarrow> live_pods ns ?pn c' = [in_namespace ns ?pod]"
    using assms by (auto dest: CreateBuildPod_live)
  have d: "\<forall>c''. err = None
            \<and> CreateBuildPod name ns configMapName imageName pvcName dockerSecretName repoDir c' = (None, c'')
          \<longrightarrow> live_pods ns ?pn c'' = [in_namespace ns ?pod]
            \<and> filter (is_pod ns ?pn) (Pods c'') = [in_namespace ns ?pod]"
    by (auto dest: CreateBuildPod_live CreateBuildPod_success)
  have e: "settled ns ?pn c \<longrightarrow>
           err = None
           \<and> (\<exists>c''. CreateBuildPod name ns configMapName imageName pvcName dockerSecretName repoDir c'
                        = (None, c'')
                  \<and> live_pods ns ?pn c'' = [in_namespace ns ?pod]
                  \<and> filter (is_pod ns ?pn) (Pods c'') = [in_namespace ns ?pod])"
  proof
    assume st: "settled ns ?pn c"
    from CreateBuildPod_settled[OF st, of configMapName imageName pvcName dockerSecretName repoDir] assms
    have en: "err = None" and st': "settled ns ?pn c'" by auto
    from CreateBuildPod_settled[OF st', of configMapName imageName pvcName dockerSecretName repoDir]
    obtain c'' where
      "CreateBuildPod name ns configMapName imageName pvcName dockerSecretName repoDir c' = (None, c'')"
      by blast
    with en d show "err = None
           \<and> (\<exists>c''. CreateBuildPod name ns configMapName imageName pvcName dockerSecretName repoDir c'
                        = (None, c'')
                  \<and> live_pods ns ?pn c'' = [in_namespace ns ?pod]
                  \<and> filter (is_pod ns ?pn) (Pods c'') = [in_namespace ns ?pod])"
      by blast
  qed
  have f: "ns = [] \<longrightarrow> err \<noteq> None"
    using assms by (auto dest: CreateBuildPod_empty_namespace)
  show ?thesis
    apply (rule exI[of _ entries])
    using lg bp f a fnd b c d e apply blast
    done
qed

text \<open>
  Two calls in sequence on a cluster that holds an earlier build pod with a finalizer:
  the first patches, deletes and creates, the second deletes the pod of the first and
  creates again, and one live build pod remains. The same call in the empty namespace
  is refused at the lookup.
\<close>

theorem CreateBuildPod_ensures_fresh_pod_witness:
  "settled ''default'' ''tf-docker-build-pod'' demo_cluster
   \<and> fst (demo_CreateBuildPod demo_cluster) = None
   \<and> fst (demo_CreateBuildPod (snd (demo_CreateBuildPod demo_cluster))) = None
   \<and> map fst (log (snd (demo_CreateBuildPod (snd (demo_CreateBuildPod demo_cluster))))) =
       [ReqEnsurePVC ''default'' ''tf-pvc'',
        ReqGet ''default'' ''tf-docker-build-pod'',
        ReqPatchFinalizers ''default'' ''tf-docker-build-pod'',
        ReqDelete ''default'' ''tf-docker-build-pod'',
        ReqCreate ''default'' demo_build_pod,
        ReqEnsurePVC ''default'' ''tf-pvc'',
        ReqGet ''default'' ''tf-docker-build-pod'',
        ReqDelete ''default'' ''tf-docker-build-pod'',
        ReqCreate ''default'' demo_build_pod]
   \<and> live_pods ''default'' ''tf-docker-build-pod''
         (snd (demo_CreateBuildPod (snd (demo_CreateBuildPod demo_cluster)))) =
       [in_namespace ''default'' demo_build_pod]
   \<and> Pods (snd (demo_CreateBuildPod (snd (demo_CreateBuildPod demo_cluster)))) =
       [in_namespace ''default'' demo_build_pod]
   \<and> fst (CreateBuildPod ''tf'' [] ''tf-dockerfile'' ''docker.io/alustan/terraform-controller''
            ''tf-pvc'' ''tf-container-secret'' ''/tmp/tf'' demo_cluster) = Some empty_namespace_named"
proof -
  let ?c1 = "snd (demo_CreateBuildPod demo_cluster)"
  let ?c2 = "snd (demo_CreateBuildPod ?c1)"
  have r1: "fst (demo_CreateBuildPod demo_cluster) = None" by code_simp
  have r2: "fst (demo_CreateBuildPod ?c1) = None" by code_simp
  have h1: "CreateBuildPod ''tf'' ''default'' ''tf-dockerfile'' ''docker.io/alustan/terraform-controller''
       ''tf-pvc'' ''tf-container-secret'' ''/tmp/tf'' demo_cluster = (None, ?c1)"
    using r1 by (simp add: demo_CreateBuildPod_def prod_eq_iff)
  have h2: "CreateBuildPod ''tf'' ''default'' ''tf-dockerfile'' ''docker.io/alustan/terraform-controller''
       ''tf-pvc'' ''tf-container-secret'' ''/tmp/tf'' ?c1 = (None, ?c2)"
    using r2 by (simp add: demo_CreateBuildPod_def prod_eq_iff)
  from CreateBuildPod_ensures_fresh_pod[OF h1] h2
  have live: "live_pods ''default'' (''tf'' @ ''-docker-build-pod'') ?c2 =
       [in_namespace ''default'' (buildPodObject (''tf'' @ ''-docker-build-pod'') ''tf'' ''tf-dockerfile''
          ''docker.io/alustan/terraform-controller'' ''tf-pvc'' ''tf-container-secret'' ''/tmp/tf'')]"
    by blast
  have lg: "map fst (log ?c2) =
       [ReqEnsurePVC ''default'' ''tf-pvc'',
        ReqGet ''default'' ''tf-docker-build-pod'',
        ReqPatchFinalizers ''default'' ''tf-docker-build-pod'',
        ReqDelete ''default'' ''tf-docker-build-pod'',
        ReqCreate ''default'' demo_build_pod,
        ReqEnsurePVC ''default'' ''tf-pvc'',
        ReqGet ''default'' ''tf-docker-build-pod'',
        ReqDelete ''default'' ''tf-docker-build-pod'',
        ReqCreate ''default'' demo_build_pod]"
    by code_simp
  have ps: "Pods ?c2 = [in_namespace ''default'' demo_build_pod]" by code_simp
  from live have "live_pods ''default'' ''tf-docker-build-pod'' ?c2 = [in_namespace ''default'' demo_build_pod]"
    by (simp add: demo_build_pod_def)
  moreover have "settled ''default'' ''tf-docker-build-pod'' demo_cluster"
    by (simp add: settled_def demo_cluster_def demo_old_pod_def is_pod_def)
  moreover have "fst (CreateBuildPod ''tf'' [] ''tf-dockerfile'' ''docker.io/alustan/terraform-controller''
            ''tf-pvc'' ''tf-container-secret'' ''/tmp/tf'' demo_cluster) = Some empty_namespace_named"
    by code_simp
  ultimately show ?thesis using r1 r2 lg ps by simp
qed

text \<open>
  C4 as the specification words it has the create follow whenever a pod of the name
  exists, and one live build pod after two calls in sequence. A pod that is stuck in
  deletion on a finalizer exists and is found; the patch frees it and the cluster removes
  it, the delete is answered NotFound, and the function returns that error without a
  create. And when the create of a second call meets the deletion still in flight and is
  answered AlreadyExists, the two calls leave no live build pod.
\<close>

theorem CreateBuildPod_fresh_pod_counterexample:
  "find (is_pod ''default'' ''tf-docker-build-pod'') (Pods demo_stuck_cluster) =
     Some (demo_old_pod\<lparr>PodMeta := (PodMeta demo_old_pod)\<lparr>DeletionTimestamp := True\<rparr>\<rparr>)
   \<and> fst (demo_CreateBuildPod demo_stuck_cluster) = Some (ErrNotFound ''tf-docker-build-pod'')
   \<and> map fst (log (snd (demo_CreateBuildPod demo_stuck_cluster))) =
       [ReqEnsurePVC ''default'' ''tf-pvc'',
        ReqGet ''default'' ''tf-docker-build-pod'',
        ReqPatchFinalizers ''default'' ''tf-docker-build-pod'',
        ReqDelete ''default'' ''tf-docker-build-pod'']
   \<and> live_pods ''default'' ''tf-docker-build-pod'' (snd (demo_CreateBuildPod demo_stuck_cluster)) = []
   \<and> fst (demo_CreateBuildPod demo_race_cluster) = None
   \<and> fst (demo_CreateBuildPod (snd (demo_CreateBuildPod demo_race_cluster))) =
       Some (ErrAlreadyExists ''tf-docker-build-pod'')
   \<and> live_pods ''default'' ''tf-docker-build-pod''
         (snd (demo_CreateBuildPod (snd (demo_CreateBuildPod demo_race_cluster)))) = []"
  by code_simp

text \<open>
  C8, as the code has it. The pod that a successful \<open>CreateBuildPod\<close> leaves in the
  cluster has exactly one container, the restart policy Never, and exactly four volume
  mounts, none of them marked read-only: the Dockerfile of the ConfigMap at \<open>/config\<close>,
  the repository directory of the host at \<open>/workspace\<close>, the registry credential secret
  at \<open>/root/.docker\<close>, and the volume of the persistent volume claim at \<open>/logs\<close>.
\<close>

theorem build_pod_shape:
  assumes "CreateBuildPod name ns configMapName imageName pvcName dockerSecretName repoDir c = (None, c')"
  shows "\<exists>pod. filter (is_pod ns (name @ ''-docker-build-pod'')) (Pods c') = [pod]
     \<and> pod = in_namespace ns (buildPodObject (name @ ''-docker-build-pod'') name configMapName
                  imageName pvcName dockerSecretName repoDir)
     \<and> length (Containers (PodSpec pod)) = 1
     \<and> RestartPolicy (PodSpec pod) = RestartPolicyNever
     \<and> VolumeMounts (hd (Containers (PodSpec pod))) =
         [\<lparr>MountName = ''dockerfile-config'', ReadOnly = False, MountPath = ''/config''\<rparr>,
          \<lparr>MountName = ''workspace'', ReadOnly = False, MountPath = ''/workspace''\<rparr>,
          \<lparr>MountName = ''docker-credentials'', ReadOnly = False, MountPath = ''/root/.docker''\<rparr>,
          \<lparr>MountName = ''kaniko-logs'', ReadOnly = False, MountPath = ''/logs''\<rparr>]
     \<and> Volumes (PodSpec pod) =
         [\<lparr>VolumeName = ''dockerfile-config'',
           VolumeSource = ConfigMapVolumeSource configMapName [\<lparr>Key = ''Dockerfile'', Path = ''Dockerfile''\<rparr>]\<rparr>,
          \<lparr>VolumeName = ''workspace'', VolumeSource = HostPathVolumeSource repoDir\<rparr>,
          \<lparr>VolumeName = ''docker-credentials'',
           VolumeSource = SecretVolumeSource dockerSecretName
                            [\<lparr>Key = ''.dockerconfigjson'', Path = ''config.json''\<rparr>]\<rparr>,
          \<lparr>VolumeName = ''kaniko-logs'', VolumeSource = PersistentVolumeClaimVolumeSource pvcName\<rparr>]"
  using CreateBuildPod_success[OF assms]
  by (simp add: in_namespace_def buildPodObject_def)

text \<open>The build pod of the resource \<open>tf\<close>.\<close>

theorem build_pod_shape_witness:
  "fst (demo_CreateBuildPod demo_cluster) = None
   \<and> Pods (snd (demo_CreateBuildPod demo_cluster)) = [in_namespace ''default'' demo_build_pod]
   \<and> length (Containers (PodSpec (in_namespace ''default'' demo_build_pod))) = 1
   \<and> map MountName (VolumeMounts (hd (Containers (PodSpec (in_namespace ''default'' demo_build_pod))))) =
       [''dockerfile-config'', ''workspace'', ''docker-credentials'', ''kaniko-logs'']
   \<and> map VolumeSource (Volumes (PodSpec (in_namespace ''default'' demo_build_pod))) =
       [ConfigMapVolumeSource ''tf-dockerfile'' [\<lparr>Key = ''Dockerfile'', Path = ''Dockerfile''\<rparr>],
        HostPathVolumeSource ''/tmp/tf'',
        SecretVolumeSource ''tf-container-secret'' [\<lparr>Key = ''.dockerconfigjson'', Path = ''config.json''\<rparr>],
        PersistentVolumeClaimVolumeSource ''tf-pvc'']"
proof -
  let ?c1 = "snd (demo_CreateBuildPod demo_cluster)"
  have r1: "fst (demo_CreateBuildPod demo_cluster) = None" by code_simp
  have h1: "CreateBuildPod ''tf'' ''default'' ''tf-dockerfile'' ''docker.io/alustan/terraform-controller''
       ''tf-pvc'' ''tf-container-secret'' ''/tmp/tf'' demo_cluster = (None, ?c1)"
    using r1 by (simp add: demo_CreateBuildPod_def prod_eq_iff)
  have ps: "Pods ?c1 = [in_namespace ''default'' demo_build_pod]" by code_simp
  from build_pod_shape[OF h1] ps r1 show ?thesis
    by (simp add: demo_build_pod_def)
qed

text \<open>
  C8 as the specification words it has the Dockerfile mounted read-only; the mount the
  source builds leaves \<open>ReadOnly\<close> unset.
\<close>

theorem build_pod_dockerfile_mount_counterexample:
  "MountName (hd (VolumeMounts (hd (Containers (PodSpec (hd (Pods (snd (demo_CreateBuildPod demo_cluster)))))))))
     = ''dockerfile-config''
   \<and> \<not> ReadOnly (hd (VolumeMounts (hd (Containers (PodSpec (hd (Pods (snd (demo_CreateBuildPod demo_cluster)))))))))"
  by code_simp

text \<open>
  C10. In \<open>CreateBuildPod\<close>, a lookup that fails with an error other than NotFound makes
  the function return that error, and no patch, delete or create is sent. A patch or a
  delete that fails makes the function return its error, and no create is sent. A create
  is the last request of the call, and before it the call has either been told by the
  lookup that the pod is not found or had its delete accepted.
\<close>

theorem CreateBuildPod_failures:
  assumes "CreateBuildPod name ns configMapName imageName pvcName dockerSecretName repoDir c = (err, c')"
  shows "\<exists>entries. log c' = log c @ entries
     \<and> (\<forall>e. (ReqGet ns (name @ ''-docker-build-pod''), Failed e) \<in> set entries \<and> \<not> IsNotFound e \<longrightarrow>
            err = Some e
            \<and> list_all (\<lambda>x. \<not> is_patch (fst x) \<and> \<not> is_delete (fst x) \<and> \<not> is_create (fst x)) entries)
     \<and> (\<forall>rq e. (rq, Failed e) \<in> set entries \<and> (is_patch rq \<or> is_delete rq) \<longrightarrow>
            err = Some e \<and> list_all (\<lambda>x. \<not> is_create (fst x)) entries)
     \<and> (\<forall>x\<in>set entries. is_create (fst x) \<longrightarrow>
            x = last entries
            \<and> ((ReqDelete ns (name @ ''-docker-build-pod''), Done) \<in> set entries
                \<or> (\<exists>e. IsNotFound e \<and> (ReqGet ns (name @ ''-docker-build-pod''), Failed e) \<in> set entries)))"
proof -
  from CreateBuildPod_protocol[OF assms] obtain entries where
    lg: "log c' = log c @ entries"
    and bp: "build_protocol ns pvcName (name @ ''-docker-build-pod'')
               (buildPodObject (name @ ''-docker-build-pod'') name configMapName imageName pvcName
                  dockerSecretName repoDir) err entries"
    by blast
  from build_protocol_failures[OF bp] lg show ?thesis
    by (intro exI[of _ entries] conjI) simp_all
qed

text \<open>
  The earlier pod with a finalizer, and a fault at the lookup, at the patch and at the
  delete: each call returns the fault and sends nothing after it.
\<close>

theorem CreateBuildPod_failures_witness:
  "demo_CreateBuildPod (demo_cluster\<lparr>faults := [None, Some (ErrOther ''timeout'')]\<rparr>) =
     (Some (ErrOther ''timeout''),
      \<lparr>Pods = [demo_old_pod], PVCs = [(''default'', ''tf-pvc'')], faults = [],
       log = [(ReqEnsurePVC ''default'' ''tf-pvc'', Done),
              (ReqGet ''default'' ''tf-docker-build-pod'', Failed (ErrOther ''timeout''))]\<rparr>)
   \<and> fst (demo_CreateBuildPod (demo_cluster\<lparr>faults := [None, None, Some (ErrOther ''forbidden'')]\<rparr>)) =
       Some (ErrOther ''forbidden'')
   \<and> map fst (log (snd (demo_CreateBuildPod
         (demo_cluster\<lparr>faults := [None, None, Some (ErrOther ''forbidden'')]\<rparr>)))) =
       [ReqEnsurePVC ''default'' ''tf-pvc'', ReqGet ''default'' ''tf-docker-build-pod'',
        ReqPatchFinalizers ''default'' ''tf-docker-build-pod'']
   \<and> fst (demo_CreateBuildPod (demo_cluster\<lparr>faults := [None, None, None, Some (ErrOther ''conflict'')]\<rparr>)) =
       Some (ErrOther ''conflict'')
   \<and> map fst (log (snd (demo_CreateBuildPod
         (demo_cluster\<lparr>faults := [None, None, None, Some (ErrOther ''conflict'')]\<rparr>)))) =
       [ReqEnsurePVC ''default'' ''tf-pvc'', ReqGet ''default'' ''tf-docker-build-pod'',
        ReqPatchFinalizers ''default'' ''tf-docker-build-pod'', ReqDelete ''default'' ''tf-docker-build-pod'']"
proof -
  let ?c = "demo_cluster\<lparr>faults := [None, Some (ErrOther ''timeout'')]\<rparr>"
  let ?c' = "\<lparr>Pods = [demo_old_pod], PVCs = [(''default'', ''tf-pvc'')], faults = [],
       log = [(ReqEnsurePVC ''default'' ''tf-pvc'', Done),
              (ReqGet ''default'' ''tf-docker-build-pod'', Failed (ErrOther ''timeout''))]\<rparr>"
  have e1: "demo_CreateBuildPod ?c = (Some (ErrOther ''timeout''), ?c')"
    by code_simp
  then have h: "CreateBuildPod ''tf'' ''default'' ''tf-dockerfile'' ''docker.io/alustan/terraform-controller''
       ''tf-pvc'' ''tf-container-secret'' ''/tmp/tf'' ?c = (Some (ErrOther ''timeout''), ?c')"
    by (simp add: demo_CreateBuildPod_def)
  have e2: "fst (demo_CreateBuildPod (demo_cluster\<lparr>faults := [None, None, Some (ErrOther ''forbidden'')]\<rparr>)) =
       Some (ErrOther ''forbidden'')"
    by code_simp
  have e3: "map fst (log (snd (demo_CreateBuildPod
         (demo_cluster\<lparr>faults := [None, None, Some (ErrOther ''forbidden'')]\<rparr>)))) =
       [ReqEnsurePVC ''default'' ''tf-pvc'', ReqGet ''default'' ''tf-docker-build-pod'',
        ReqPatchFinalizers ''default'' ''tf-docker-build-pod'']"
    by code_simp
  have e4: "fst (demo_CreateBuildPod (demo_cluster\<lparr>faults := [None, None, None, Some (ErrOther ''conflict'')]\<rparr>)) =
       Some (ErrOther ''conflict'')"
    by code_simp
  have e5: "map fst (log (snd (demo_CreateBuildPod
         (demo_cluster\<lparr>faults := [None, None, None, Some (ErrOther ''conflict'')]\<rparr>)))) =
       [ReqEnsurePVC ''default'' ''tf-pvc'', ReqGet ''default'' ''tf-docker-build-pod'',
        ReqPatchFinalizers ''default'' ''tf-docker-build-pod'', ReqDelete ''default'' ''tf-docker-build-pod'']"
    by code_simp
  from CreateBuildPod_failures[OF h] obtain entries where
    lg: "log ?c' = log ?c @ entries"
    and g: "\<forall>e. (ReqGet ''default'' (''tf'' @ ''-docker-build-pod''), Failed e) \<in> set entries \<and> \<not> IsNotFound e \<longrightarrow>
            Some (ErrOther ''timeout'') = Some e
            \<and> list_all (\<lambda>x. \<not> is_patch (fst x) \<and> \<not> is_delete (fst x) \<and> \<not> is_create (fst x)) entries"
    by (elim exE conjE)
  from lg have en: "entries = [(ReqEnsurePVC ''default'' ''tf-pvc'', Done),
              (ReqGet ''default'' ''tf-docker-build-pod'', Failed (ErrOther ''timeout''))]"
    by (simp add: demo_cluster_def)
  from g[rule_format, of "ErrOther ''timeout''"] en
  have "list_all (\<lambda>x. \<not> is_patch (fst x) \<and> \<not> is_delete (fst x) \<and> \<not> is_create (fst x)) entries"
    by simp
  with e1 e2 e3 e4 e5 show ?thesis by simp
qed

end
